theory Spec2Isabelle
  imports Complex_Main
begin

section \<open>JavaScript values used by the console\<close>

text \<open>
  The record-management console is browser JavaScript. Its numbers are modelled by their
  mathematical value: a finite number is an exact rational, and the three special values
  of the language are separate constructors. Rounding to a double and the sign of zero are
  not modelled. The model agrees with the program where the program's numbers are whole
  and below \<open>2\<^sup>5\<^sup>3\<close> in size (page numbers, page sizes, counts; their quotient is only
  ever rounded up to a whole number) and on decimal literals that a double holds exactly,
  such as 3.5. Strings are ASCII text, one \<^typ>\<open>char\<close> per code unit.
\<close>

datatype jsnum = NaN | PosInfinity | NegInfinity | Finite rat

datatype jsval = JString string | JNumber jsnum

type_synonym jsobject = "(string \<times> jsval) list"

text \<open>A string-valued object, as \<^verbatim>\<open>Object.fromEntries(formData.entries())\<close> builds it.\<close>

type_synonym formdata = "(string \<times> string) list"

definition isNaN :: "jsnum \<Rightarrow> bool" where
  "isNaN x = (x = NaN)"

text \<open>The relational operator \<^verbatim>\<open><\<close> on numbers; \<^verbatim>\<open>a > b\<close> is \<^verbatim>\<open>b < a\<close>.\<close>

fun js_lt :: "jsnum \<Rightarrow> jsnum \<Rightarrow> bool" where
  "js_lt NaN _ = False"
| "js_lt _ NaN = False"
| "js_lt (Finite a) (Finite b) = (a < b)"
| "js_lt (Finite a) PosInfinity = True"
| "js_lt (Finite a) NegInfinity = False"
| "js_lt PosInfinity _ = False"
| "js_lt NegInfinity NegInfinity = False"
| "js_lt NegInfinity _ = True"

definition js_gt :: "jsnum \<Rightarrow> jsnum \<Rightarrow> bool" where
  "js_gt a b = js_lt b a"

text \<open>The operator \<^verbatim>\<open>/\<close>: a zero divisor gives an infinity or NaN, never an error.\<close>

fun js_div :: "jsnum \<Rightarrow> jsnum \<Rightarrow> jsnum" where
  "js_div (Finite a) (Finite b) =
     (if b = 0 then (if a = 0 then NaN else if 0 < a then PosInfinity else NegInfinity)
      else Finite (a / b))"
| "js_div (Finite a) PosInfinity = Finite 0"
| "js_div (Finite a) NegInfinity = Finite 0"
| "js_div PosInfinity (Finite b) = (if 0 \<le> b then PosInfinity else NegInfinity)"
| "js_div NegInfinity (Finite b) = (if 0 \<le> b then NegInfinity else PosInfinity)"
| "js_div _ _ = NaN"

fun Math_ceil :: "jsnum \<Rightarrow> jsnum" where
  "Math_ceil (Finite a) = Finite (of_int \<lceil>a\<rceil>)"
| "Math_ceil x = x"

subsection \<open>Strings\<close>

definition isWhiteSpace :: "char \<Rightarrow> bool" where
  "isWhiteSpace c = (c \<in> set [CHR 0x09, CHR 0x0A, CHR 0x0B, CHR 0x0C, CHR 0x0D, CHR '' ''])"

definition trim :: "string \<Rightarrow> string" where
  "trim s = rev (dropWhile isWhiteSpace (rev (dropWhile isWhiteSpace s)))"

definition isLower :: "char \<Rightarrow> bool" where
  "isLower c = (97 \<le> (of_char c :: nat) \<and> (of_char c :: nat) \<le> 122)"

definition isUpper :: "char \<Rightarrow> bool" where
  "isUpper c = (65 \<le> (of_char c :: nat) \<and> (of_char c :: nat) \<le> 90)"

definition isDigit :: "char \<Rightarrow> bool" where
  "isDigit c = (48 \<le> (of_char c :: nat) \<and> (of_char c :: nat) \<le> 57)"

definition toUpperCase :: "string \<Rightarrow> string" where
  "toUpperCase s = map (\<lambda>c. if isLower c then char_of ((of_char c :: nat) - 32) else c) s"

subsection \<open>Parsing numbers\<close>

definition digitValue :: "char \<Rightarrow> nat option" where
  "digitValue c =
     (let n = (of_char c :: nat) in
      if 48 \<le> n \<and> n \<le> 57 then Some (n - 48)
      else if 97 \<le> n \<and> n \<le> 122 then Some (n - 87)
      else if 65 \<le> n \<and> n \<le> 90 then Some (n - 55)
      else None)"

definition radixDigit :: "nat \<Rightarrow> char \<Rightarrow> bool" where
  "radixDigit radix c = (case digitValue c of Some d \<Rightarrow> d < radix | None \<Rightarrow> False)"

definition digitsValue :: "nat \<Rightarrow> string \<Rightarrow> nat" where
  "digitsValue radix ds =
     foldl (\<lambda>acc c. acc * radix + (case digitValue c of Some d \<Rightarrow> d | None \<Rightarrow> 0)) 0 ds"

definition isSign :: "char \<Rightarrow> bool" where
  "isSign c = (c = CHR ''+'' \<or> c = CHR ''-'')"

definition isNegative :: "string \<Rightarrow> bool" where
  "isNegative s = (case s of [] \<Rightarrow> False | c # _ \<Rightarrow> c = CHR ''-'')"

definition stripSign :: "string \<Rightarrow> string" where
  "stripSign s = (case s of [] \<Rightarrow> [] | c # r \<Rightarrow> if isSign c then r else s)"

text \<open>
  \<^verbatim>\<open>parseInt(string)\<close> with no radix: leading white space is skipped, a sign is read,
  a \<^verbatim>\<open>0x\<close> prefix selects radix 16, and the longest prefix of digits is the value;
  no digit at all gives NaN. What follows the digits is ignored.
\<close>

definition parseInt :: "string \<Rightarrow> jsnum" where
  "parseInt str =
     (let s = dropWhile isWhiteSpace str;
          s1 = stripSign s;
          hex = (take 2 s1 = ''0x'' \<or> take 2 s1 = ''0X'');
          radix = (if hex then 16 else 10);
          s2 = (if hex then drop 2 s1 else s1);
          z = takeWhile (radixDigit radix) s2
      in if z = [] then NaN
         else Finite (of_int ((if isNegative s then - 1 else 1) * int (digitsValue radix z))))"

definition exponentPart :: "string \<Rightarrow> int" where
  "exponentPart s =
     (case s of
        [] \<Rightarrow> 0
      | c # r \<Rightarrow>
          if c = CHR ''e'' \<or> c = CHR ''E'' then
            (let ds = takeWhile isDigit (stripSign r) in
             if ds = [] then 0
             else (if isNegative r then - 1 else 1) * int (digitsValue 10 ds))
          else 0)"

definition scale10 :: "rat \<Rightarrow> int \<Rightarrow> rat" where
  "scale10 m e = (if 0 \<le> e then m * 10 ^ nat e else m / 10 ^ nat (- e))"

text \<open>
  \<^verbatim>\<open>parseFloat(string)\<close>: leading white space is skipped and the longest prefix that is
  a decimal literal (sign, digits, fraction, exponent, or \<^verbatim>\<open>Infinity\<close>) is the value;
  no such prefix gives NaN. What follows the literal is ignored.
\<close>

definition parseFloat :: "string \<Rightarrow> jsnum" where
  "parseFloat str =
     (let s = dropWhile isWhiteSpace str;
          s1 = stripSign s
      in if take 8 s1 = ''Infinity'' then (if isNegative s then NegInfinity else PosInfinity)
         else
           (let ip = takeWhile isDigit s1;
                r1 = dropWhile isDigit s1;
                hasDot = (case r1 of [] \<Rightarrow> False | c # _ \<Rightarrow> c = CHR ''.'');
                fp = (if hasDot then takeWhile isDigit (tl r1) else []);
                r2 = (if hasDot then dropWhile isDigit (tl r1) else r1)
            in if ip = [] \<and> fp = [] then NaN
               else
                 (let mant = of_nat (digitsValue 10 (ip @ fp)) / 10 ^ length fp
                  in Finite ((if isNegative s then - 1 else 1) * scale10 mant (exponentPart r2)))))"

section \<open>The shared table engine (DataTable.js)\<close>

text \<open>
  One \<^verbatim>\<open>DataTable\<close> object holds the query state and the modal state of a view.
  Its fields are the class's fields; the two modals are their \<^verbatim>\<open>active\<close> class, the
  spinner and the error panel are their visibility. The schema of the view (resource path,
  columns, form fields) is constant and only selects which collection a request goes to,
  so a request is recorded by its method and parameters, relative to the view's resource.
  Console output is not modelled.
\<close>

datatype sortOrder = Asc | Desc

record dataTable =
  currentPage :: int
  itemsPerPage :: jsnum
  totalItems :: jsnum
  totalPages :: jsnum
  sortColumn :: "string option"
  sortOrder :: sortOrder
  searchQuery :: string
  tableData :: "jsobject list"
  currentRecord :: "jsobject option"
  recordToDelete :: "string option"
  formModalActive :: bool
  deleteModalActive :: bool
  loadingShown :: bool
  errorShown :: "string option"

text \<open>
  The requests \<^verbatim>\<open>fetch\<close> is called with:
  \<^verbatim>\<open>GET ?_page=P&_limit=L[&q=TEXT][&_sort=COL&_order=ORD]\<close>, \<^verbatim>\<open>GET /id\<close>,
  \<^verbatim>\<open>GET ?code=CODE\<close>, \<^verbatim>\<open>POST\<close> with a body, \<^verbatim>\<open>PUT /id\<close> with a body and
  \<^verbatim>\<open>DELETE /id\<close>. An identifier read from a record may be missing.
\<close>

datatype request =
    ListReq int jsnum "string option" "(string \<times> sortOrder) option"
  | GetReq string
  | ByCodeReq string
  | PostReq jsobject
  | PutReq "jsval option" jsobject
  | DeleteReq string

datatype effect = Fetch request | Alert string | FormReset | RenderForm "jsobject option"

text \<open>
  What a request comes back with. \<^verbatim>\<open>fetch\<close> either rejects (a transport error) or
  resolves to a response with its \<^verbatim>\<open>ok\<close> flag; a list response also carries the
  \<^verbatim>\<open>X-Total-Count\<close> header, if any, and the array of records of its body. A handler is
  modelled run to completion, the responses to the requests it issues being arguments.
\<close>

datatype listResponse = ListRejected | ListResponse bool "string option" "jsobject list"

datatype writeResponse = WriteRejected | WriteResponse bool

datatype getResponse = GetRejected | GetResponse bool jsobject

definition initialTable :: dataTable where
  "initialTable =
     \<lparr>currentPage = 1, itemsPerPage = Finite 10, totalItems = Finite 0, totalPages = Finite 0,
      sortColumn = None, sortOrder = Asc, searchQuery = [], tableData = [],
      currentRecord = None, recordToDelete = None, formModalActive = False,
      deleteModalActive = False, loadingShown = False, errorShown = None\<rparr>"

text \<open>The query a load asks for: search and sort are sent only when they are truthy.\<close>

definition listRequest :: "dataTable \<Rightarrow> request" where
  "listRequest s =
     ListReq (currentPage s) (itemsPerPage s)
       (if searchQuery s \<noteq> [] then Some (searchQuery s) else None)
       (case sortColumn s of
          None \<Rightarrow> None
        | Some c \<Rightarrow> if c \<noteq> [] then Some (c, sortOrder s) else None)"

definition loadFailed :: "dataTable \<Rightarrow> dataTable" where
  "loadFailed s =
     s\<lparr>errorShown := Some ''Failed to load data. Please check if json-server is running.'',
       loadingShown := False\<rparr>"

definition loadData :: "listResponse \<Rightarrow> dataTable \<Rightarrow> dataTable \<times> effect list" where
  "loadData response s =
     (let s1 = s\<lparr>loadingShown := True, errorShown := None\<rparr>;
          url = listRequest s1
      in case response of
           ListRejected \<Rightarrow> (loadFailed s1, [Fetch url])
         | ListResponse ok totalCount json \<Rightarrow>
             if \<not> ok then (loadFailed s1, [Fetch url])
             else
               (let items =
                      (case totalCount of
                         None \<Rightarrow> Finite (of_nat (length json))
                       | Some h \<Rightarrow> if h \<noteq> [] then parseInt h else Finite (of_nat (length json)))
                in (s1\<lparr>tableData := json, totalItems := items,
                        totalPages := Math_ceil (js_div items (itemsPerPage s1)),
                        loadingShown := False\<rparr>,
                    [Fetch url])))"

text \<open>The listeners of the search box and of the items-per-page selector.\<close>

definition searchInput :: "string \<Rightarrow> listResponse \<Rightarrow> dataTable \<Rightarrow> dataTable \<times> effect list" where
  "searchInput v response s = loadData response (s\<lparr>searchQuery := v, currentPage := 1\<rparr>)"

definition itemsPerPageChange ::
  "string \<Rightarrow> listResponse \<Rightarrow> dataTable \<Rightarrow> dataTable \<times> effect list" where
  "itemsPerPageChange v response s =
     loadData response (s\<lparr>itemsPerPage := parseInt v, currentPage := 1\<rparr>)"

definition sortBy :: "string \<Rightarrow> listResponse \<Rightarrow> dataTable \<Rightarrow> dataTable \<times> effect list" where
  "sortBy column response s =
     loadData response
       (if sortColumn s = Some column
        then s\<lparr>sortOrder := (if sortOrder s = Asc then Desc else Asc)\<rparr>
        else s\<lparr>sortColumn := Some column, sortOrder := Asc\<rparr>)"

definition previousPage :: "listResponse \<Rightarrow> dataTable \<Rightarrow> dataTable \<times> effect list" where
  "previousPage response s =
     (if 1 < currentPage s then loadData response (s\<lparr>currentPage := currentPage s - 1\<rparr>)
      else (s, []))"

definition nextPage :: "listResponse \<Rightarrow> dataTable \<Rightarrow> dataTable \<times> effect list" where
  "nextPage response s =
     (if js_lt (Finite (of_int (currentPage s))) (totalPages s)
      then loadData response (s\<lparr>currentPage := currentPage s + 1\<rparr>)
      else (s, []))"

subsection \<open>The modals\<close>

definition openAddModal :: "dataTable \<Rightarrow> dataTable \<times> effect list" where
  "openAddModal s = (s\<lparr>currentRecord := None, formModalActive := True\<rparr>, [RenderForm None])"

definition openEditModal :: "string \<Rightarrow> getResponse \<Rightarrow> dataTable \<Rightarrow> dataTable \<times> effect list" where
  "openEditModal ident response s =
     (case response of
        GetRejected \<Rightarrow> (s, [Fetch (GetReq ident), Alert ''Failed to load record for editing''])
      | GetResponse ok r \<Rightarrow>
          if \<not> ok then (s, [Fetch (GetReq ident), Alert ''Failed to load record for editing''])
          else (s\<lparr>currentRecord := Some r, formModalActive := True\<rparr>,
                [Fetch (GetReq ident), RenderForm (Some r)]))"

definition closeModal :: "dataTable \<Rightarrow> dataTable \<times> effect list" where
  "closeModal s = (s\<lparr>formModalActive := False, currentRecord := None\<rparr>, [FormReset])"

definition openDeleteModal :: "string \<Rightarrow> dataTable \<Rightarrow> dataTable" where
  "openDeleteModal ident s = s\<lparr>recordToDelete := Some ident, deleteModalActive := True\<rparr>"

definition closeDeleteModal :: "dataTable \<Rightarrow> dataTable" where
  "closeDeleteModal s = s\<lparr>deleteModalActive := False, recordToDelete := None\<rparr>"

text \<open>
  \<^verbatim>\<open>confirmDelete\<close> returns at once when no identifier is pending (\<^verbatim>\<open>null\<close> or the
  empty string). A rejected request and a response that is not \<^verbatim>\<open>ok\<close> both end in the
  \<^verbatim>\<open>catch\<close> block, which only alerts.
\<close>

definition confirmDelete ::
  "writeResponse \<Rightarrow> listResponse \<Rightarrow> dataTable \<Rightarrow> dataTable \<times> effect list" where
  "confirmDelete response reload s =
     (case recordToDelete s of
        None \<Rightarrow> (s, [])
      | Some ident \<Rightarrow>
          if ident = [] then (s, [])
          else
            (case response of
               WriteRejected \<Rightarrow>
                 (s, [Fetch (DeleteReq ident), Alert ''Failed to delete record. Please try again.''])
             | WriteResponse ok \<Rightarrow>
                 if \<not> ok then
                   (s, [Fetch (DeleteReq ident), Alert ''Failed to delete record. Please try again.''])
                 else
                   (let (s2, es) = loadData reload (closeDeleteModal s)
                    in (s2, Fetch (DeleteReq ident) # es))))"

section \<open>Validation (Student.js, Course.js, Instructor.js, Employee.js)\<close>

subsection \<open>Anchored patterns\<close>

text \<open>
  Both regular expressions of the validators are a sequence of quantified character
  classes between \<^verbatim>\<open>^\<close> and \<^verbatim>\<open>$\<close>. Such a pattern is a list of items, each a class with
  its least and greatest number of repetitions (no greatest number for \<^verbatim>\<open>+\<close>);
  \<^verbatim>\<open>test\<close> holds when the whole string splits into runs that fit the items in order.
\<close>

datatype quantified = Quantified "char \<Rightarrow> bool" nat "nat option"

fun regex_test :: "quantified list \<Rightarrow> string \<Rightarrow> bool" where
  "regex_test [] s = (s = [])"
| "regex_test (Quantified cls lo hi # items) s =
     list_ex (\<lambda>n. list_all cls (take n s) \<and> regex_test items (drop n s))
       [lo ..< Suc (case hi of None \<Rightarrow> length s | Some h \<Rightarrow> min h (length s))]"

definition notSpaceOrAt :: "char \<Rightarrow> bool" where
  "notSpaceOrAt c = (\<not> isWhiteSpace c \<and> c \<noteq> CHR ''@'')"

definition literal :: "char \<Rightarrow> char \<Rightarrow> bool" where
  "literal a c = (c = a)"

text \<open>\<^verbatim>\<open>/^[^\s@]+@[^\s@]+\.[^\s@]+$/\<close>\<close>

definition emailRegex :: "quantified list" where
  "emailRegex =
     [Quantified notSpaceOrAt 1 None, Quantified (literal (CHR ''@'')) 1 (Some 1),
      Quantified notSpaceOrAt 1 None, Quantified (literal (CHR ''.'')) 1 (Some 1),
      Quantified notSpaceOrAt 1 None]"

text \<open>\<^verbatim>\<open>/^[A-Z]{2,4}\d{3}$/\<close>\<close>

definition codeRegex :: "quantified list" where
  "codeRegex = [Quantified isUpper 2 (Some 4), Quantified isDigit 3 (Some 3)]"

subsection \<open>The checks on one field\<close>

text \<open>
  A field of the data is a string or is missing (\<^verbatim>\<open>undefined\<close>); a missing field and the
  empty string are the falsy values. The three shapes of check the validators use:
  \<^verbatim>\<open>!v || v.trim().length < n\<close>, \<^verbatim>\<open>!v || v.trim() === ''\<close> and \<^verbatim>\<open>!v || !re.test(f(v))\<close>.
\<close>

definition field :: "formdata \<Rightarrow> string \<Rightarrow> string option" where
  "field data name = map_of data name"

definition falsy :: "string option \<Rightarrow> bool" where
  "falsy v = (case v of None \<Rightarrow> True | Some t \<Rightarrow> t = [])"

definition shorterThan :: "nat \<Rightarrow> string option \<Rightarrow> bool" where
  "shorterThan n v = (case v of None \<Rightarrow> True | Some t \<Rightarrow> t = [] \<or> length (trim t) < n)"

definition blank :: "string option \<Rightarrow> bool" where
  "blank v = (case v of None \<Rightarrow> True | Some t \<Rightarrow> t = [] \<or> trim t = [])"

definition failsTest :: "quantified list \<Rightarrow> (string \<Rightarrow> string) \<Rightarrow> string option \<Rightarrow> bool" where
  "failsTest re f v = (case v of None \<Rightarrow> True | Some t \<Rightarrow> t = [] \<or> \<not> regex_test re (f t))"

text \<open>The argument of \<^verbatim>\<open>parseInt\<close> and \<^verbatim>\<open>parseFloat\<close> is converted to a string first.\<close>

definition toString :: "string option \<Rightarrow> string" where
  "toString v = (case v of None \<Rightarrow> ''undefined'' | Some t \<Rightarrow> t)"

text \<open>\<^verbatim>\<open>if (c) errors.push(message)\<close>\<close>

definition push :: "bool \<Rightarrow> string \<Rightarrow> string list \<Rightarrow> string list" where
  "push c message errors = (if c then errors @ [message] else errors)"

record validationResult =
  isValid :: bool
  errors :: "string list"

subsection \<open>The four validators\<close>

definition validateStudent :: "formdata \<Rightarrow> validationResult" where
  "validateStudent data =
     (let errors = [];
          errors = push (shorterThan 3 (field data ''name''))
                     ''Name must be at least 3 characters long'' errors;
          errors = push (failsTest emailRegex id (field data ''email''))
                     ''Please enter a valid email address'' errors;
          errors = push (shorterThan 10 (field data ''phone''))
                     ''Please enter a valid phone number'' errors;
          gpa = parseFloat (toString (field data ''gpa''));
          errors = push (isNaN gpa \<or> js_lt gpa (Finite 0) \<or> js_gt gpa (Finite 4))
                     ''GPA must be between 0.0 and 4.0'' errors;
          errors = push (blank (field data ''department''))
                     ''Please select a department'' errors;
          errors = push (falsy (field data ''enrollmentDate''))
                     ''Please enter enrollment date'' errors
      in \<lparr>isValid = (length errors = 0), errors = errors\<rparr>)"

definition validateCourse :: "formdata \<Rightarrow> validationResult" where
  "validateCourse data =
     (let errors = [];
          errors = push (failsTest codeRegex toUpperCase (field data ''code''))
                     ''Course code must be in format: CS101, ENG201, BUS301, etc.'' errors;
          errors = push (shorterThan 5 (field data ''name''))
                     ''Course name must be at least 5 characters long'' errors;
          credits = parseInt (toString (field data ''credits''));
          errors = push (isNaN credits \<or> js_lt credits (Finite 1) \<or> js_gt credits (Finite 6))
                     ''Credit hours must be between 1 and 6'' errors;
          errors = push (blank (field data ''department''))
                     ''Please select a department'' errors;
          errors = push (shorterThan 3 (field data ''instructor''))
                     ''Instructor name must be at least 3 characters long'' errors
      in \<lparr>isValid = (length errors = 0), errors = errors\<rparr>)"

text \<open>
  The hire date is checked through \<^verbatim>\<open>Date\<close> objects, which compare by their time value:
  milliseconds since the epoch, NaN for an invalid date. How the platform parses a date
  string is a parameter \<open>newDate\<close> of the two validators that do so, and the time of the
  evaluation (\<^verbatim>\<open>new Date()\<close>) is the parameter \<open>now\<close>.
\<close>

definition hireDateErrors ::
  "(string \<Rightarrow> jsnum) \<Rightarrow> int \<Rightarrow> string option \<Rightarrow> string list \<Rightarrow> string list" where
  "hireDateErrors newDate now v collected =
     (if falsy v then collected @ [''Please enter hire date'']
      else
        (let errors = collected;
             hireDate = newDate (toString v);
             today = Finite (of_int now);
             minDate = newDate ''2000-01-01'';
             errors = push (js_gt hireDate today) ''Hire date cannot be in the future'' errors;
             errors = push (js_lt hireDate minDate) ''Hire date seems too old (before 2000)'' errors
         in errors))"

definition validateEmployee :: "(string \<Rightarrow> jsnum) \<Rightarrow> int \<Rightarrow> formdata \<Rightarrow> validationResult" where
  "validateEmployee newDate now data =
     (let errors = [];
          errors = push (shorterThan 3 (field data ''name''))
                     ''Name must be at least 3 characters long'' errors;
          errors = push (failsTest emailRegex id (field data ''email''))
                     ''Please enter a valid email address'' errors;
          errors = push (shorterThan 10 (field data ''phone''))
                     ''Please enter a valid phone number'' errors;
          errors = push (blank (field data ''position''))
                     ''Please select a position'' errors;
          errors = push (blank (field data ''department''))
                     ''Please select a department'' errors;
          errors = hireDateErrors newDate now (field data ''hireDate'') errors
      in \<lparr>isValid = (length errors = 0), errors = errors\<rparr>)"

definition validateInstructor :: "(string \<Rightarrow> jsnum) \<Rightarrow> int \<Rightarrow> formdata \<Rightarrow> validationResult" where
  "validateInstructor newDate now data =
     (let errors = [];
          errors = push (shorterThan 5 (field data ''name''))
                     ''Name must be at least 5 characters long (include title: Dr., Prof., etc.)''
                     errors;
          errors = push (failsTest emailRegex id (field data ''email''))
                     ''Please enter a valid email address'' errors;
          errors = push (shorterThan 10 (field data ''phone''))
                     ''Please enter a valid phone number'' errors;
          errors = push (blank (field data ''department''))
                     ''Please select a department'' errors;
          errors = push (shorterThan 3 (field data ''specialization''))
                     ''Specialization must be at least 3 characters long'' errors;
          errors = hireDateErrors newDate now (field data ''hireDate'') errors
      in \<lparr>isValid = (length errors = 0), errors = errors\<rparr>)"

subsection \<open>A parser for the date-only form\<close>

text \<open>
  The date-only form \<^verbatim>\<open>YYYY-MM-DD\<close> of the language's date-time string format is read as
  midnight UTC of that day. \<open>isoDate\<close> reads this form and nothing else; it is the parser
  the examples below run the validators with.
\<close>

definition isLeapYear :: "int \<Rightarrow> bool" where
  "isLeapYear y = (y mod 4 = 0 \<and> (y mod 100 \<noteq> 0 \<or> y mod 400 = 0))"

definition daysInMonth :: "int \<Rightarrow> int \<Rightarrow> int" where
  "daysInMonth y m =
     (if m = 2 then (if isLeapYear y then 29 else 28)
      else if m = 4 \<or> m = 6 \<or> m = 9 \<or> m = 11 then 30 else 31)"

definition daysFromCivil :: "int \<Rightarrow> int \<Rightarrow> int \<Rightarrow> int" where
  "daysFromCivil y m d =
     (let y1 = (if m \<le> 2 then y - 1 else y);
          era = y1 div 400;
          yoe = y1 - era * 400;
          doy = (153 * (if 2 < m then m - 3 else m + 9) + 2) div 5 + d - 1;
          doe = yoe * 365 + yoe div 4 - yoe div 100 + doy
      in era * 146097 + doe - 719468)"

definition isoDate :: "string \<Rightarrow> jsnum" where
  "isoDate s =
     (if length s = 10 \<and> s ! 4 = CHR ''-'' \<and> s ! 7 = CHR ''-''
         \<and> list_all isDigit (take 4 s) \<and> list_all isDigit (take 2 (drop 5 s))
         \<and> list_all isDigit (drop 8 s)
      then
        (let y = int (digitsValue 10 (take 4 s));
             m = int (digitsValue 10 (take 2 (drop 5 s)));
             d = int (digitsValue 10 (drop 8 s))
         in if 1 \<le> m \<and> m \<le> 12 \<and> 1 \<le> d \<and> d \<le> daysInMonth y m
            then Finite (of_int (daysFromCivil y m d * 86400000))
            else NaN)
      else NaN)"

section \<open>Saving a record\<close>

text \<open>
  \<^verbatim>\<open>Object.fromEntries(formData.entries())\<close>: the entries of the form, a later entry of
  the same name replacing an earlier one. What the form holds when it is submitted is an
  argument of the save handlers.
\<close>

fun obj_set :: "string \<Rightarrow> 'v \<Rightarrow> (string \<times> 'v) list \<Rightarrow> (string \<times> 'v) list" where
  "obj_set k v [] = [(k, v)]"
| "obj_set k v ((k', v') # r) = (if k' = k then (k, v) # r else (k', v') # obj_set k v r)"

definition fromEntries :: "formdata \<Rightarrow> formdata" where
  "fromEntries entries = foldl (\<lambda>obj (k, v). obj_set k v obj) [] entries"

definition strings :: "formdata \<Rightarrow> jsobject" where
  "strings data = map (\<lambda>(k, v). (k, JString v)) data"

text \<open>\<^verbatim>\<open>errors.join('\n')\<close>\<close>

fun join :: "string list \<Rightarrow> string" where
  "join [] = []"
| "join [e] = e"
| "join (e # es) = e @ CHR 0x0A # join es"

definition validationAlert :: "validationResult \<Rightarrow> effect" where
  "validationAlert validation =
     Alert (''Validation errors:'' @ CHR 0x0A # join (errors validation))"

text \<open>
  The body of an update is \<^verbatim>\<open>{...data, id: this.currentRecord.id}\<close>; when the record has
  no \<^verbatim>\<open>id\<close>, the property is \<^verbatim>\<open>undefined\<close> and \<^verbatim>\<open>JSON.stringify\<close> leaves it out.
\<close>

definition withId :: "jsval option \<Rightarrow> jsobject \<Rightarrow> jsobject" where
  "withId ident body =
     (case ident of
        None \<Rightarrow> filter (\<lambda>(k, v). k \<noteq> ''id'') body
      | Some v \<Rightarrow> obj_set ''id'' v body)"

text \<open>
  The four \<^verbatim>\<open>saveRecord\<close> methods end alike: a \<^verbatim>\<open>PUT\<close> when a record is being edited, a
  \<^verbatim>\<open>POST\<close> otherwise; a response that is \<^verbatim>\<open>ok\<close> closes the modal and reloads, anything
  else is caught and alerts the method's failure message.
\<close>

definition submitRecord ::
  "string \<Rightarrow> jsobject \<Rightarrow> writeResponse \<Rightarrow> listResponse \<Rightarrow> dataTable
     \<Rightarrow> dataTable \<times> effect list" where
  "submitRecord failure body response reload s =
     (let req =
            (case currentRecord s of
               Some r \<Rightarrow> PutReq (map_of r ''id'') (withId (map_of r ''id'') body)
             | None \<Rightarrow> PostReq body)
      in case response of
           WriteRejected \<Rightarrow> (s, [Fetch req, Alert failure])
         | WriteResponse ok \<Rightarrow>
             if \<not> ok then (s, [Fetch req, Alert failure])
             else
               (let (s1, e1) = closeModal s;
                    (s2, e2) = loadData reload s1
                in (s2, Fetch req # e1 @ e2)))"

definition Student_saveRecord ::
  "formdata \<Rightarrow> writeResponse \<Rightarrow> listResponse \<Rightarrow> dataTable \<Rightarrow> dataTable \<times> effect list" where
  "Student_saveRecord entries response reload s =
     (let data = fromEntries entries;
          validation = validateStudent data
      in if \<not> isValid validation then (s, [validationAlert validation])
         else
           (let body = obj_set ''gpa'' (JNumber (parseFloat (toString (field data ''gpa''))))
                         (strings data)
            in submitRecord ''Failed to save student. Please try again.'' body response reload s))"

text \<open>\<^verbatim>\<open>getCourseByCode\<close> answers \<^verbatim>\<open>null\<close> when nothing is found and when the request fails.\<close>

definition getCourseByCode :: "listResponse \<Rightarrow> jsobject option" where
  "getCourseByCode response =
     (case response of
        ListRejected \<Rightarrow> None
      | ListResponse ok h courses \<Rightarrow>
          if \<not> ok then None else (case courses of [] \<Rightarrow> None | c # _ \<Rightarrow> Some c))"

definition Course_saveRecord ::
  "formdata \<Rightarrow> listResponse \<Rightarrow> writeResponse \<Rightarrow> listResponse \<Rightarrow> dataTable
     \<Rightarrow> dataTable \<times> effect list" where
  "Course_saveRecord entries lookup response reload s =
     (let data = fromEntries entries;
          validation = validateCourse data;
          failure = ''Failed to save course. Please try again.''
      in if \<not> isValid validation then (s, [validationAlert validation])
         else
           (case field data ''code'' of
              None \<Rightarrow> (s, [Alert failure])
            | Some c \<Rightarrow>
                (let code = toUpperCase c;
                     body = obj_set ''credits'' (JNumber (parseInt (toString (field data ''credits''))))
                              (obj_set ''code'' (JString code) (strings data))
                 in case currentRecord s of
                      Some r \<Rightarrow> submitRecord failure body response reload s
                    | None \<Rightarrow>
                        (case getCourseByCode lookup of
                           Some existingCourse \<Rightarrow>
                             (s, [Fetch (ByCodeReq code),
                                  Alert (''Course code '' @ code @ '' already exists!'')])
                         | None \<Rightarrow>
                             (let (s2, es) = submitRecord failure body response reload s
                              in (s2, Fetch (ByCodeReq code) # es))))))"

definition Employee_saveRecord ::
  "(string \<Rightarrow> jsnum) \<Rightarrow> int \<Rightarrow> formdata \<Rightarrow> writeResponse \<Rightarrow> listResponse \<Rightarrow> dataTable
     \<Rightarrow> dataTable \<times> effect list" where
  "Employee_saveRecord newDate now entries response reload s =
     (let data = fromEntries entries;
          validation = validateEmployee newDate now data
      in if \<not> isValid validation then (s, [validationAlert validation])
         else submitRecord ''Failed to save employee. Please try again.'' (strings data)
                response reload s)"

definition Instructor_saveRecord ::
  "(string \<Rightarrow> jsnum) \<Rightarrow> int \<Rightarrow> formdata \<Rightarrow> writeResponse \<Rightarrow> listResponse \<Rightarrow> dataTable
     \<Rightarrow> dataTable \<times> effect list" where
  "Instructor_saveRecord newDate now entries response reload s =
     (let data = fromEntries entries;
          validation = validateInstructor newDate now data
      in if \<not> isValid validation then (s, [validationAlert validation])
         else submitRecord ''Failed to save instructor. Please try again.'' (strings data)
                response reload s)"

section \<open>The states a view can reach\<close>

text \<open>
  A view starts as its constructor leaves it and changes only through its handlers, each
  with whatever responses the server gives.
\<close>

inductive reachable :: "dataTable \<Rightarrow> bool" where
  reach_new: "reachable initialTable"
| reach_load: "reachable s \<Longrightarrow> reachable (fst (loadData r s))"
| reach_search: "reachable s \<Longrightarrow> reachable (fst (searchInput v r s))"
| reach_pageSize: "reachable s \<Longrightarrow> reachable (fst (itemsPerPageChange v r s))"
| reach_sort: "reachable s \<Longrightarrow> reachable (fst (sortBy column r s))"
| reach_previous: "reachable s \<Longrightarrow> reachable (fst (previousPage r s))"
| reach_next: "reachable s \<Longrightarrow> reachable (fst (nextPage r s))"
| reach_openAdd: "reachable s \<Longrightarrow> reachable (fst (openAddModal s))"
| reach_openEdit: "reachable s \<Longrightarrow> reachable (fst (openEditModal ident g s))"
| reach_close: "reachable s \<Longrightarrow> reachable (fst (closeModal s))"
| reach_openDelete: "reachable s \<Longrightarrow> reachable (openDeleteModal ident s)"
| reach_closeDelete: "reachable s \<Longrightarrow> reachable (closeDeleteModal s)"
| reach_confirmDelete: "reachable s \<Longrightarrow> reachable (fst (confirmDelete w r s))"
| reach_saveStudent: "reachable s \<Longrightarrow> reachable (fst (Student_saveRecord entries w r s))"
| reach_saveCourse: "reachable s \<Longrightarrow> reachable (fst (Course_saveRecord entries l w r s))"
| reach_saveEmployee:
    "reachable s \<Longrightarrow> reachable (fst (Employee_saveRecord newDate now entries w r s))"
| reach_saveInstructor:
    "reachable s \<Longrightarrow> reachable (fst (Instructor_saveRecord newDate now entries w r s))"

text \<open>The relational operator \<^verbatim>\<open><=\<close> on numbers.\<close>

definition js_le :: "jsnum \<Rightarrow> jsnum \<Rightarrow> bool" where
  "js_le a b = (a \<noteq> NaN \<and> b \<noteq> NaN \<and> \<not> js_lt b a)"

text \<open>
  The bound the specification states for the page of a view:
  \<open>1 \<le> page \<le> max(1, ceil(totalItems / pageSize))\<close>.
\<close>

definition pageWithinBounds :: "dataTable \<Rightarrow> bool" where
  "pageWithinBounds s =
     (1 \<le> currentPage s \<and>
      (currentPage s \<le> 1 \<or>
       js_le (Finite (of_int (currentPage s)))
         (Math_ceil (js_div (totalItems s) (itemsPerPage s)))))"

definition wholeNumber :: "jsnum \<Rightarrow> bool" where
  "wholeNumber x = (case x of Finite a \<Rightarrow> of_int \<lfloor>a\<rfloor> = a | _ \<Rightarrow> True)"

text \<open>
  A view on its third and last page of 21 records, ten to a page, whose only record on
  that page is then deleted.
\<close>

definition threePages :: listResponse where
  "threePages = ListResponse True (Some ''21'') []"

definition lastPageEmptied :: dataTable where
  "lastPageEmptied =
     fst (confirmDelete (WriteResponse True) (ListResponse True (Some ''20'') [])
       (openDeleteModal ''21''
         (fst (nextPage threePages (fst (nextPage threePages
           (fst (loadData threePages initialTable))))))))"

section \<open>The rules of the specification\<close>

text \<open>
  The validation rules of the specification, each stated as the condition under which a
  mapping violates it: a required text is missing or shorter than its minimum after
  trimming; an e-mail address or a course code (upper-cased) does not have its shape; a
  number does not parse or lies outside its closed range; a selection is missing or blank;
  a hire date is missing, does not parse to a valid date, lies in the future, or precedes
  the floor date. Each rule comes with the message by which the validator of the record
  kind reports its violation, or with none when no message of that validator is about it.
\<close>

type_synonym rule = "(formdata \<Rightarrow> bool) \<times> string option"

definition tooShort :: "nat \<Rightarrow> string \<Rightarrow> formdata \<Rightarrow> bool" where
  "tooShort n name data =
     (case field data name of None \<Rightarrow> True | Some v \<Rightarrow> length (trim v) < n)"

definition malformed :: "quantified list \<Rightarrow> (string \<Rightarrow> string) \<Rightarrow> string \<Rightarrow> formdata \<Rightarrow> bool" where
  "malformed re f name data =
     (case field data name of None \<Rightarrow> True | Some v \<Rightarrow> \<not> regex_test re (f v))"

definition outOfRange :: "(string \<Rightarrow> jsnum) \<Rightarrow> rat \<Rightarrow> rat \<Rightarrow> string \<Rightarrow> formdata \<Rightarrow> bool" where
  "outOfRange parse lo hi name data =
     (case parse (toString (field data name)) of
        Finite x \<Rightarrow> x < lo \<or> hi < x
      | _ \<Rightarrow> True)"

definition unselected :: "string \<Rightarrow> formdata \<Rightarrow> bool" where
  "unselected name data = (case field data name of None \<Rightarrow> True | Some v \<Rightarrow> trim v = [])"

definition absent :: "string \<Rightarrow> formdata \<Rightarrow> bool" where
  "absent name data = (case field data name of None \<Rightarrow> True | Some v \<Rightarrow> v = [])"

definition hireUnparseable :: "(string \<Rightarrow> jsnum) \<Rightarrow> formdata \<Rightarrow> bool" where
  "hireUnparseable newDate data =
     (case field data ''hireDate'' of
        None \<Rightarrow> False
      | Some v \<Rightarrow> v \<noteq> [] \<and> (case newDate v of Finite t \<Rightarrow> False | _ \<Rightarrow> True))"

definition hiredAfter :: "(string \<Rightarrow> jsnum) \<Rightarrow> int \<Rightarrow> formdata \<Rightarrow> bool" where
  "hiredAfter newDate now data =
     (case field data ''hireDate'' of
        None \<Rightarrow> False
      | Some v \<Rightarrow> v \<noteq> [] \<and> js_lt (Finite (of_int now)) (newDate v))"

definition hiredBeforeFloor :: "(string \<Rightarrow> jsnum) \<Rightarrow> formdata \<Rightarrow> bool" where
  "hiredBeforeFloor newDate data =
     (case field data ''hireDate'' of
        None \<Rightarrow> False
      | Some v \<Rightarrow> v \<noteq> [] \<and> js_lt (newDate v) (newDate ''2000-01-01''))"


definition courseCodeMessage :: string where
  "courseCodeMessage = ''Course code must be in format: CS101, ENG201, BUS301, etc.''"

definition courseRules :: "rule list" where
  "courseRules =
     [(malformed codeRegex toUpperCase ''code'',
       Some ''Course code must be in format: CS101, ENG201, BUS301, etc.''),
      (tooShort 5 ''name'', Some ''Course name must be at least 5 characters long''),
      (outOfRange parseInt 1 6 ''credits'', Some ''Credit hours must be between 1 and 6''),
      (unselected ''department'', Some ''Please select a department''),
      (tooShort 3 ''instructor'', Some ''Instructor name must be at least 3 characters long'')]"

definition employeeRules :: "(string \<Rightarrow> jsnum) \<Rightarrow> int \<Rightarrow> rule list" where
  "employeeRules newDate now =
     [(tooShort 3 ''name'', Some ''Name must be at least 3 characters long''),
      (malformed emailRegex id ''email'', Some ''Please enter a valid email address''),
      (tooShort 10 ''phone'', Some ''Please enter a valid phone number''),
      (unselected ''position'', Some ''Please select a position''),
      (unselected ''department'', Some ''Please select a department''),
      (absent ''hireDate'', Some ''Please enter hire date''),
      (hireUnparseable newDate, None),
      (hiredAfter newDate now, Some ''Hire date cannot be in the future''),
      (hiredBeforeFloor newDate, Some ''Hire date seems too old (before 2000)'')]"

definition instructorRules :: "(string \<Rightarrow> jsnum) \<Rightarrow> int \<Rightarrow> rule list" where
  "instructorRules newDate now =
     [(tooShort 5 ''name'',
       Some ''Name must be at least 5 characters long (include title: Dr., Prof., etc.)''),
      (malformed emailRegex id ''email'', Some ''Please enter a valid email address''),
      (tooShort 10 ''phone'', Some ''Please enter a valid phone number''),
      (unselected ''department'', Some ''Please select a department''),
      (tooShort 3 ''specialization'', Some ''Specialization must be at least 3 characters long''),
      (absent ''hireDate'', Some ''Please enter hire date''),
      (hireUnparseable newDate, None),
      (hiredAfter newDate now, Some ''Hire date cannot be in the future''),
      (hiredBeforeFloor newDate, Some ''Hire date seems too old (before 2000)'')]"

text \<open>
  The messages of the rules a mapping violates, in the order of the rules; a violated rule
  that has no message contributes nothing.
\<close>

definition reported :: "rule list \<Rightarrow> formdata \<Rightarrow> string list" where
  "reported rules data =
     concat (map (\<lambda>r. case snd r of
                         Some message \<Rightarrow> if fst r data then [message] else []
                       | None \<Rightarrow> []) rules)"

subsection \<open>Example inputs\<close>

definition annLee :: formdata where
  "annLee =
     [(''name'', ''Ann Lee''), (''email'', ''a@b.edu''), (''phone'', ''1234567890''),
      (''department'', ''Science''), (''gpa'', ''3.7''), (''enrollmentDate'', ''2023-01-01'')]"

definition introToSystems :: formdata where
  "introToSystems =
     [(''code'', ''cs101''), (''name'', ''Intro to Systems''), (''credits'', ''3''),
      (''department'', ''Engineering''), (''instructor'', ''Dr. Lee'')]"

definition officer :: "string \<Rightarrow> formdata" where
  "officer hired =
     [(''name'', ''Ann Lee''), (''email'', ''a@b.edu''), (''phone'', ''1234567890''),
      (''position'', ''Records Manager''), (''department'', ''Registrar''),
      (''specialization'', ''Archives''), (''hireDate'', hired)]"

definition twoFaults :: formdata where
  "twoFaults = obj_set ''gpa'' ''4.5'' (obj_set ''name'' ''Al'' annLee)"

definition gradeWithSuffix :: formdata where
  "gradeWithSuffix = obj_set ''gpa'' ''3.5abc'' annLee"

text \<open>The answer to a lookup by code when a course CS101 is already stored.\<close>

definition taken :: listResponse where
  "taken = ListResponse True None [[(''id'', JNumber (Finite 4)), (''code'', JString ''CS101'')]]"

text \<open>What every reachable state satisfies: the page is at least 1 and the page count is whole.\<close>

definition pageInv :: "dataTable \<Rightarrow> bool" where
  "pageInv s = (1 \<le> currentPage s \<and> wholeNumber (totalPages s))"

text \<open>A view whose delete confirmation is open for the record 7.\<close>

definition deleting :: dataTable where
  "deleting = openDeleteModal ''7'' initialTable"

section \<open>What a load changes\<close>

lemma listRequest_flags [simp]:
  "listRequest (s\<lparr>loadingShown := a, errorShown := b\<rparr>) = listRequest s"
  by (simp add: listRequest_def split: option.splits)

lemma listRequest_modal [simp]:
  "listRequest (s\<lparr>deleteModalActive := a, recordToDelete := b\<rparr>) = listRequest s"
  "listRequest (s\<lparr>formModalActive := c, currentRecord := d\<rparr>) = listRequest s"
  by (simp_all add: listRequest_def split: option.splits)

lemma loadData_effects: "snd (loadData r s) = [Fetch (listRequest s)]"
  by (simp add: loadData_def loadFailed_def Let_def split: listResponse.splits)

lemma loadData_frame:
  "currentPage (fst (loadData r s)) = currentPage s"
  "itemsPerPage (fst (loadData r s)) = itemsPerPage s"
  "sortColumn (fst (loadData r s)) = sortColumn s"
  "sortOrder (fst (loadData r s)) = sortOrder s"
  "searchQuery (fst (loadData r s)) = searchQuery s"
  "currentRecord (fst (loadData r s)) = currentRecord s"
  "recordToDelete (fst (loadData r s)) = recordToDelete s"
  "formModalActive (fst (loadData r s)) = formModalActive s"
  "deleteModalActive (fst (loadData r s)) = deleteModalActive s"
  by (simp_all add: loadData_def loadFailed_def Let_def split: listResponse.splits)

section \<open>Sorting\<close>

text \<open>
  C5. A click on a sort header leaves the clicked column as the sort column. When the
  column was not the sort column before (also when none was), the order becomes ascending;
  when it was, the order flips between ascending and descending.
\<close>

theorem sortBy_toggle:
  "sortColumn (fst (sortBy column r s)) = Some column \<and>
   (sortColumn s \<noteq> Some column \<longrightarrow> sortOrder (fst (sortBy column r s)) = Asc) \<and>
   (sortColumn s = Some column \<longrightarrow>
      sortOrder (fst (sortBy column r s)) = (case sortOrder s of Asc \<Rightarrow> Desc | Desc \<Rightarrow> Asc))"
  by (cases "sortOrder s") (simp_all add: sortBy_def loadData_frame)

theorem sortBy_toggle_witness:
  "sortColumn initialTable \<noteq> Some ''name'' \<and>
   sortColumn (fst (sortBy ''name'' ListRejected initialTable)) = Some ''name'' \<and>
   sortOrder (fst (sortBy ''name'' ListRejected initialTable)) = Asc \<and>
   sortOrder (fst (sortBy ''name'' ListRejected
                (fst (sortBy ''name'' ListRejected initialTable)))) = Desc"
proof -
  have unsorted: "sortColumn initialTable \<noteq> Some ''name''"
    by (simp add: initialTable_def)
  note first = sortBy_toggle [of "''name''" ListRejected initialTable]
  note second =
    sortBy_toggle [of "''name''" ListRejected "fst (sortBy ''name'' ListRejected initialTable)"]
  from first unsorted second show ?thesis by simp
qed

text \<open>The search box and the items-per-page selector ask for page 1 of the new query.\<close>

lemma reset_before_fetch:
  "snd (searchInput v r s) = [Fetch (listRequest (s\<lparr>searchQuery := v, currentPage := 1\<rparr>))]"
  "snd (itemsPerPageChange v r s) =
     [Fetch (listRequest (s\<lparr>itemsPerPage := parseInt v, currentPage := 1\<rparr>))]"
  by (simp_all add: searchInput_def itemsPerPageChange_def loadData_effects)

text \<open>
  C1. The listeners of the search box and of the items-per-page selector set the page to
  1 before they load. \<^verbatim>\<open>sortBy\<close> does not: on page 3 of a view sorted by nothing, a click
  on the header of \<open>name\<close> asks the server for page 3 of the newly sorted list, and the
  view stays on page 3.
\<close>

theorem sortBy_keeps_page:
  "sortBy ''name'' (ListResponse True (Some ''30'') [])
     (initialTable\<lparr>currentPage := 3, totalItems := Finite 30, totalPages := Finite 3\<rparr>) =
   (initialTable\<lparr>currentPage := 3, totalItems := Finite 30, totalPages := Finite 3,
                  sortColumn := Some ''name''\<rparr>,
    [Fetch (ListReq 3 (Finite 10) None (Some (''name'', Asc)))])"
  by code_simp

section \<open>Page counts\<close>

lemma loadData_ok:
  "fst (loadData (ListResponse True h json) s) =
     s\<lparr>loadingShown := False, errorShown := None, tableData := json,
       totalItems := (case h of None \<Rightarrow> Finite (of_nat (length json))
                      | Some t \<Rightarrow> if t \<noteq> [] then parseInt t else Finite (of_nat (length json))),
       totalPages := Math_ceil (js_div
          (case h of None \<Rightarrow> Finite (of_nat (length json))
                      | Some t \<Rightarrow> if t \<noteq> [] then parseInt t else Finite (of_nat (length json)))
          (itemsPerPage s))\<rparr>"
  by (simp add: loadData_def Let_def)

text \<open>
  C4. After a load whose response is \<^verbatim>\<open>ok\<close>, the item count is the number in the
  \<^verbatim>\<open>X-Total-Count\<close> header, or the length of the returned array when there is no
  header. For a page size of at least 1 and a count of at least 0, the page count is then
  the ceiling of count over page size, that is the least number of pages that hold all
  items, and it is 0 exactly when the count is 0.
\<close>

theorem loadData_totalPages:
  assumes size: "itemsPerPage s = Finite k" "1 \<le> k"
    and count: "totalItems (fst (loadData (ListResponse True h json) s)) = Finite n" "0 \<le> n"
  shows "totalItems (fst (loadData (ListResponse True h json) s)) =
           (case h of None \<Rightarrow> Finite (of_nat (length json))
            | Some t \<Rightarrow> if t \<noteq> [] then parseInt t else Finite (of_nat (length json))) \<and>
         totalPages (fst (loadData (ListResponse True h json) s)) = Finite (of_int \<lceil>n / k\<rceil>) \<and>
         (totalPages (fst (loadData (ListResponse True h json) s)) = Finite 0 \<longleftrightarrow> n = 0) \<and>
         (\<forall>m::int. \<lceil>n / k\<rceil> \<le> m \<longleftrightarrow> n \<le> of_int m * k)"
proof -
  let ?s' = "fst (loadData (ListResponse True h json) s)"
  from size have k: "0 < k" "k \<noteq> 0" by simp_all
  have items: "totalItems ?s' =
           (case h of None \<Rightarrow> Finite (of_nat (length json))
            | Some t \<Rightarrow> if t \<noteq> [] then parseInt t else Finite (of_nat (length json)))"
    by (simp add: loadData_ok)
  have "totalPages ?s' = Math_ceil (js_div (totalItems ?s') (itemsPerPage s))"
    by (simp add: loadData_ok)
  with count(1) size(1) k have pages: "totalPages ?s' = Finite (of_int \<lceil>n / k\<rceil>)"
    by simp
  have least: "\<lceil>n / k\<rceil> \<le> m \<longleftrightarrow> n \<le> of_int m * k" for m :: int
    using k by (simp add: ceiling_le_iff pos_divide_le_eq)
  have "\<lceil>n / k\<rceil> = 0 \<longleftrightarrow> n = 0"
  proof
    assume "\<lceil>n / k\<rceil> = 0"
    then have "\<lceil>n / k\<rceil> \<le> 0" by simp
    then have "n \<le> 0" using least [of 0] by simp
    with count(2) show "n = 0" by simp
  qed simp
  with pages have zero: "totalPages ?s' = Finite 0 \<longleftrightarrow> n = 0" by simp
  from items pages zero least show ?thesis by blast
qed

theorem loadData_totalPages_witness:
  "totalItems (fst (loadData threePages initialTable)) = Finite 21 \<and>
   totalPages (fst (loadData threePages initialTable)) = Finite 3"
proof -
  have size: "itemsPerPage initialTable = Finite 10" "(1::rat) \<le> 10"
    by (simp_all add: initialTable_def)
  have count: "totalItems (fst (loadData (ListResponse True (Some ''21'') []) initialTable)) = Finite 21"
    "(0::rat) \<le> 21"
    by code_simp+
  have "\<lceil>(21::rat) / 10\<rceil> = 3" by code_simp
  with loadData_totalPages [OF size count] count(1) show ?thesis
    by (simp add: threePages_def)
qed

section \<open>Deleting\<close>

text \<open>
  C2, as amended. With an identifier pending, confirming the deletion sends one
  \<^verbatim>\<open>DELETE\<close>. When the response is \<^verbatim>\<open>ok\<close>, the delete modal is closed, no identifier
  is pending any more and exactly one reload of the current query follows. Otherwise
  (a response that is not \<^verbatim>\<open>ok\<close>, or a rejected request) an alert is shown, nothing is
  reloaded and the view is left as it was: the modal stays open with the identifier
  still pending.
\<close>

theorem confirmDelete_outcome:
  assumes "recordToDelete s = Some ident" and "ident \<noteq> []"
  shows "(w = WriteResponse True \<longrightarrow>
            \<not> deleteModalActive (fst (confirmDelete w r s)) \<and>
            recordToDelete (fst (confirmDelete w r s)) = None \<and>
            snd (confirmDelete w r s) = [Fetch (DeleteReq ident), Fetch (listRequest s)]) \<and>
         (w \<noteq> WriteResponse True \<longrightarrow>
            confirmDelete w r s =
              (s, [Fetch (DeleteReq ident), Alert ''Failed to delete record. Please try again.'']))"
proof (cases w)
  case WriteRejected
  with assms show ?thesis by (simp add: confirmDelete_def)
next
  case (WriteResponse ok)
  with assms show ?thesis
    by (cases ok)
       (simp_all add: confirmDelete_def split_beta loadData_frame loadData_effects
          closeDeleteModal_def)
qed

text \<open>
  C2 as stated fails: after a deletion that fails, the delete modal is still open and the
  identifier is still pending.
\<close>

theorem confirmDelete_failure_stays_open:
  "deleteModalActive (fst (confirmDelete (WriteResponse False) threePages deleting)) \<and>
   recordToDelete (fst (confirmDelete (WriteResponse False) threePages deleting)) = Some ''7'' \<and>
   deleteModalActive (fst (confirmDelete WriteRejected threePages deleting)) \<and>
   recordToDelete (fst (confirmDelete WriteRejected threePages deleting)) = Some ''7''"
  by code_simp

theorem confirmDelete_outcome_witness:
  "recordToDelete deleting = Some ''7'' \<and>
   \<not> deleteModalActive (fst (confirmDelete (WriteResponse True) threePages deleting)) \<and>
   recordToDelete (fst (confirmDelete (WriteResponse True) threePages deleting)) = None \<and>
   snd (confirmDelete (WriteResponse True) threePages deleting) =
     [Fetch (DeleteReq ''7''), Fetch (ListReq 1 (Finite 10) None None)] \<and>
   confirmDelete (WriteResponse False) threePages deleting =
     (deleting, [Fetch (DeleteReq ''7''), Alert ''Failed to delete record. Please try again.''])"
proof -
  have pending: "recordToDelete deleting = Some ''7''" and named: "''7'' \<noteq> []"
    by (simp_all add: deleting_def openDeleteModal_def)
  have req: "listRequest deleting = ListReq 1 (Finite 10) None None"
    by (simp add: deleting_def openDeleteModal_def initialTable_def listRequest_def)
  from confirmDelete_outcome [OF pending named, of "WriteResponse True" threePages]
       confirmDelete_outcome [OF pending named, of "WriteResponse False" threePages]
       pending req
  show ?thesis by simp
qed

section \<open>The page of a reachable view\<close>

lemma wholeNumber_ceil: "wholeNumber (Math_ceil x)"
  by (cases x) (simp_all add: wholeNumber_def)

lemma loadData_whole:
  "wholeNumber (totalPages s) \<Longrightarrow> wholeNumber (totalPages (fst (loadData r s)))"
  by (simp add: loadData_def loadFailed_def Let_def wholeNumber_ceil split: listResponse.splits)

lemma loadData_pageInv: "pageInv s \<Longrightarrow> pageInv (fst (loadData r s))"
  by (simp add: pageInv_def loadData_frame loadData_whole)

lemma pageInv_update:
  "pageInv s \<Longrightarrow> 1 \<le> p \<Longrightarrow> pageInv (s\<lparr>currentPage := p\<rparr>)"
  "pageInv s \<Longrightarrow> pageInv (s\<lparr>searchQuery := q\<rparr>)"
  "pageInv s \<Longrightarrow> pageInv (s\<lparr>itemsPerPage := k\<rparr>)"
  "pageInv s \<Longrightarrow> pageInv (s\<lparr>sortColumn := c\<rparr>)"
  "pageInv s \<Longrightarrow> pageInv (s\<lparr>sortOrder := d\<rparr>)"
  "pageInv s \<Longrightarrow> pageInv (s\<lparr>currentRecord := cr\<rparr>)"
  "pageInv s \<Longrightarrow> pageInv (s\<lparr>recordToDelete := rd\<rparr>)"
  "pageInv s \<Longrightarrow> pageInv (s\<lparr>formModalActive := b\<rparr>)"
  "pageInv s \<Longrightarrow> pageInv (s\<lparr>deleteModalActive := b\<rparr>)"
  by (simp_all add: pageInv_def)

lemma submitRecord_pageInv: "pageInv s \<Longrightarrow> pageInv (fst (submitRecord f b w r s))"
  by (auto simp: submitRecord_def closeModal_def Let_def split_beta
        intro!: loadData_pageInv pageInv_update split: writeResponse.splits)

lemma confirmDelete_pageInv: "pageInv s \<Longrightarrow> pageInv (fst (confirmDelete w r s))"
  by (auto simp: confirmDelete_def closeDeleteModal_def Let_def split_beta
        intro!: loadData_pageInv pageInv_update split: writeResponse.splits option.splits)

lemma previousPage_pageInv: "pageInv s \<Longrightarrow> pageInv (fst (previousPage r s))"
proof (cases "1 < currentPage s")
  case True
  assume "pageInv s"
  with True have "pageInv (s\<lparr>currentPage := currentPage s - 1\<rparr>)"
    by (simp add: pageInv_def)
  with True show ?thesis by (simp add: previousPage_def loadData_pageInv)
qed (simp add: previousPage_def)

lemma nextPage_pageInv: "pageInv s \<Longrightarrow> pageInv (fst (nextPage r s))"
proof (cases "js_lt (Finite (of_int (currentPage s))) (totalPages s)")
  case True
  assume "pageInv s"
  then have "pageInv (s\<lparr>currentPage := currentPage s + 1\<rparr>)"
    by (simp add: pageInv_def)
  with True show ?thesis by (simp add: nextPage_def loadData_pageInv)
qed (simp add: nextPage_def)

lemma reachable_pageInv: "reachable s \<Longrightarrow> pageInv s"
proof (induction rule: reachable.induct)
  case reach_new
  show ?case by (simp add: pageInv_def initialTable_def wholeNumber_def)
next
  case (reach_load s r)
  then show ?case by (simp add: loadData_pageInv)
next
  case (reach_search s v r)
  then show ?case by (auto simp: searchInput_def intro!: loadData_pageInv pageInv_update)
next
  case (reach_pageSize s v r)
  then show ?case by (auto simp: itemsPerPageChange_def intro!: loadData_pageInv pageInv_update)
next
  case (reach_sort s column r)
  then show ?case by (auto simp: sortBy_def intro!: loadData_pageInv pageInv_update)
next
  case (reach_previous s r)
  then show ?case by (simp add: previousPage_pageInv)
next
  case (reach_next s r)
  then show ?case by (simp add: nextPage_pageInv)
next
  case (reach_openAdd s)
  then show ?case by (simp add: openAddModal_def pageInv_def)
next
  case (reach_openEdit s ident g)
  then show ?case by (auto simp: openEditModal_def pageInv_def split: getResponse.splits)
next
  case (reach_close s)
  then show ?case by (simp add: closeModal_def pageInv_def)
next
  case (reach_openDelete s ident)
  then show ?case by (simp add: openDeleteModal_def pageInv_def)
next
  case (reach_closeDelete s)
  then show ?case by (simp add: closeDeleteModal_def pageInv_def)
next
  case (reach_confirmDelete s w r)
  then show ?case by (simp add: confirmDelete_pageInv)
next
  case (reach_saveStudent s entries w r)
  then show ?case by (simp add: Student_saveRecord_def Let_def submitRecord_pageInv)
next
  case (reach_saveCourse s entries l w r)
  then show ?case
    by (auto simp: Course_saveRecord_def Let_def split_beta submitRecord_pageInv
          split: option.splits)
next
  case (reach_saveEmployee s newDate now entries w r)
  then show ?case by (simp add: Employee_saveRecord_def Let_def submitRecord_pageInv)
next
  case (reach_saveInstructor s newDate now entries w r)
  then show ?case by (simp add: Instructor_saveRecord_def Let_def submitRecord_pageInv)
qed

lemma next_within:
  assumes "wholeNumber t" and "js_lt (Finite (of_int p)) t"
  shows "js_le (Finite (of_int (p + 1))) t"
proof (cases t)
  case (Finite a)
  with assms have "of_int \<lfloor>a\<rfloor> = a" and "of_int p < a"
    by (simp_all add: wholeNumber_def)
  then have "p < \<lfloor>a\<rfloor>" by (metis of_int_less_iff)
  then have "p + 1 \<le> \<lfloor>a\<rfloor>" by simp
  then have "(of_int (p + 1) :: rat) \<le> of_int \<lfloor>a\<rfloor>" by (simp only: of_int_le_iff)
  also have "\<dots> = a" by fact
  finally have "\<not> a < of_int (p + 1)" by (simp only: not_less)
  with Finite show ?thesis by (simp add: js_le_def)
qed (use assms in \<open>simp_all add: js_le_def\<close>)

text \<open>
  C3, as amended. In every reachable state the page is at least 1. The previous button
  moves one page down only from a page above 1; the next button moves one page up only to
  a page that is at most the page count held when it is clicked; the search box and the
  items-per-page selector set the page to 1; a load leaves the page as it is, whatever
  count it reads.
\<close>

theorem page_controls:
  assumes "reachable s"
  shows "1 \<le> currentPage s \<and>
         currentPage (fst (previousPage r s)) =
           (if 1 < currentPage s then currentPage s - 1 else currentPage s) \<and>
         (currentPage (fst (nextPage r s)) = currentPage s \<or>
          currentPage (fst (nextPage r s)) = currentPage s + 1 \<and>
          js_le (Finite (of_int (currentPage s + 1))) (totalPages s)) \<and>
         currentPage (fst (searchInput v r s)) = 1 \<and>
         currentPage (fst (itemsPerPageChange v r s)) = 1 \<and>
         currentPage (fst (loadData r s)) = currentPage s"
proof -
  from assms have inv: "1 \<le> currentPage s" "wholeNumber (totalPages s)"
    using reachable_pageInv by (simp_all add: pageInv_def)
  have nxt: "currentPage (fst (nextPage r s)) = currentPage s \<or>
          currentPage (fst (nextPage r s)) = currentPage s + 1 \<and>
          js_le (Finite (of_int (currentPage s + 1))) (totalPages s)"
    using next_within [OF inv(2)] by (simp add: nextPage_def loadData_frame)
  show ?thesis
    using inv(1) nxt
    by (simp add: previousPage_def searchInput_def itemsPerPageChange_def loadData_frame)
qed

lemma reachable_lastPageEmptied: "reachable lastPageEmptied"
  unfolding lastPageEmptied_def
  by (intro reach_confirmDelete reach_openDelete reach_next reach_load reach_new)

text \<open>
  C3 as stated fails: deleting the only record of the last page leaves the view on page 3
  of 2, above \<open>max(1, ceil(20 / 10))\<close>.
\<close>

theorem page_bound_counterexample:
  "reachable lastPageEmptied \<and> currentPage lastPageEmptied = 3 \<and>
   totalItems lastPageEmptied = Finite 20 \<and> itemsPerPage lastPageEmptied = Finite 10 \<and>
   totalPages lastPageEmptied = Finite 2 \<and> \<not> pageWithinBounds lastPageEmptied"
proof -
  have "currentPage lastPageEmptied = 3 \<and>
   totalItems lastPageEmptied = Finite 20 \<and> itemsPerPage lastPageEmptied = Finite 10 \<and>
   totalPages lastPageEmptied = Finite 2 \<and> \<not> pageWithinBounds lastPageEmptied"
    by code_simp
  with reachable_lastPageEmptied show ?thesis by simp
qed

theorem page_controls_witness:
  "reachable lastPageEmptied \<and> 1 \<le> currentPage lastPageEmptied \<and>
   currentPage (fst (previousPage threePages lastPageEmptied)) = 2 \<and>
   currentPage (fst (nextPage threePages lastPageEmptied)) = 3 \<and>
   currentPage (fst (searchInput ''lee'' threePages lastPageEmptied)) = 1"
proof -
  have page: "currentPage lastPageEmptied = 3" and pages: "totalPages lastPageEmptied = Finite 2"
    by code_simp+
  have stay: "currentPage (fst (nextPage threePages lastPageEmptied)) = 3"
    by code_simp
  from page_controls [OF reachable_lastPageEmptied, of threePages "''lee''"] page stay
  show ?thesis using reachable_lastPageEmptied by simp
qed

section \<open>The validators report every violated rule\<close>

lemma push_append: "push c m es = es @ (if c then [m] else [])"
  by (simp add: push_def)

lemma regex_test_item:
  "regex_test (Quantified cls lo hi # items) s \<longleftrightarrow>
     (\<exists>n. lo \<le> n \<and> n \<le> length s \<and> (case hi of None \<Rightarrow> True | Some h \<Rightarrow> n \<le> h) \<and>
          list_all cls (take n s) \<and> regex_test items (drop n s))"
proof -
  define m where "m = (case hi of None \<Rightarrow> length s | Some h \<Rightarrow> min h (length s))"
  have "regex_test (Quantified cls lo hi # items) s \<longleftrightarrow>
          (\<exists>n\<in>set [lo ..< Suc m]. list_all cls (take n s) \<and> regex_test items (drop n s))"
    unfolding m_def by (simp only: regex_test.simps list_ex_iff)
  also have "\<dots> \<longleftrightarrow>
          (\<exists>n. lo \<le> n \<and> n \<le> m \<and> list_all cls (take n s) \<and> regex_test items (drop n s))"
    by (simp only: set_upt atLeastLessThan_iff less_Suc_eq_le Bex_def conj_assoc)
  also have "\<dots> \<longleftrightarrow>
          (\<exists>n. lo \<le> n \<and> n \<le> length s \<and> (case hi of None \<Rightarrow> True | Some h \<Rightarrow> n \<le> h) \<and>
               list_all cls (take n s) \<and> regex_test items (drop n s))"
    unfolding m_def by (cases hi) auto
  finally show ?thesis .
qed

lemma emailRegex_empty: "\<not> regex_test emailRegex []"
  by (simp add: emailRegex_def)

lemma codeRegex_empty: "\<not> regex_test codeRegex (toUpperCase [])"
  by (simp add: codeRegex_def toUpperCase_def)

lemma shorterThan_tooShort: "0 < n \<Longrightarrow> shorterThan n (field d name) = tooShort n name d"
  by (auto simp: shorterThan_def tooShort_def trim_def split: option.splits)

lemma failsTest_email: "failsTest emailRegex id (field d name) = malformed emailRegex id name d"
  using emailRegex_empty by (auto simp: failsTest_def malformed_def split: option.splits)

lemma failsTest_code:
  "failsTest codeRegex toUpperCase (field d name) = malformed codeRegex toUpperCase name d"
  using codeRegex_empty by (auto simp: failsTest_def malformed_def split: option.splits)

lemma blank_unselected: "blank (field d name) = unselected name d"
  by (auto simp: blank_def unselected_def trim_def split: option.splits)


lemma range_outOfRange:
  "(isNaN (parse (toString (field d name))) \<or> js_lt (parse (toString (field d name))) (Finite lo)
      \<or> js_gt (parse (toString (field d name))) (Finite hi))
   = outOfRange parse lo hi name d"
  by (cases "parse (toString (field d name))") (simp_all add: outOfRange_def isNaN_def js_gt_def)

lemma reported_Cons:
  "reported ((violated, Some message) # rules) d =
     (if violated d then [message] else []) @ reported rules d"
  "reported ((violated, None) # rules) d = reported rules d"
  by (simp_all add: reported_def)

lemma reported_Nil: "reported [] d = []"
  by (simp add: reported_def)

lemma hireDateErrors_reported:
  "hireDateErrors newDate now (field d ''hireDate'') es =
     es @ reported
       [(absent ''hireDate'', Some ''Please enter hire date''),
        (hireUnparseable newDate, None),
        (hiredAfter newDate now, Some ''Hire date cannot be in the future''),
        (hiredBeforeFloor newDate, Some ''Hire date seems too old (before 2000)'')] d"
  by (cases "field d ''hireDate''")
     (simp_all add: hireDateErrors_def reported_Cons reported_Nil falsy_def absent_def
        hiredAfter_def hiredBeforeFloor_def toString_def push_def js_gt_def Let_def)


lemma validateCourse_errors: "errors (validateCourse d) = reported courseRules d"
  by (simp add: validateCourse_def courseRules_def Let_def push_append reported_Cons
        reported_Nil shorterThan_tooShort failsTest_code blank_unselected range_outOfRange)

lemma validateEmployee_errors:
  "errors (validateEmployee newDate now d) = reported (employeeRules newDate now) d"
  by (simp add: validateEmployee_def employeeRules_def Let_def push_append reported_Cons
        reported_Nil shorterThan_tooShort failsTest_email blank_unselected
        hireDateErrors_reported)

lemma validateInstructor_errors:
  "errors (validateInstructor newDate now d) = reported (instructorRules newDate now) d"
  by (simp add: validateInstructor_def instructorRules_def Let_def push_append reported_Cons
        reported_Nil shorterThan_tooShort failsTest_email blank_unselected
        hireDateErrors_reported)

lemma validate_isValid:
  "isValid (validateStudent d) = (errors (validateStudent d) = [])"
  "isValid (validateCourse d) = (errors (validateCourse d) = [])"
  "isValid (validateEmployee newDate now d) = (errors (validateEmployee newDate now d) = [])"
  "isValid (validateInstructor newDate now d) = (errors (validateInstructor newDate now d) = [])"
  by (simp_all add: validateStudent_def validateCourse_def validateEmployee_def
        validateInstructor_def Let_def)

lemma reported_set:
  "message \<in> set (reported rules d) \<longleftrightarrow>
     (\<exists>violated. (violated, Some message) \<in> set rules \<and> violated d)"
  by (force simp: reported_def split: option.splits if_splits)

text \<open>
  C9. For an employee or an instructor whose hire date is present and parses to a time,
  the platform reading 2000-01-01 as midnight UTC of that day: the validator reports
  ``Hire date cannot be in the future'' exactly when that time is after the time of the
  evaluation, and ``Hire date seems too old (before 2000)'' exactly when it is before
  2000-01-01. A hire date from 2000-01-01 on and not in the future gets neither message.
\<close>

theorem hireDate_rules:
  assumes "field d ''hireDate'' = Some h" and "h \<noteq> []"
    and "newDate h = Finite t" and "newDate ''2000-01-01'' = Finite 946684800000"
  shows "(''Hire date cannot be in the future'' \<in> set (errors (validateEmployee newDate now d))
            \<longleftrightarrow> of_int now < t) \<and>
         (''Hire date seems too old (before 2000)'' \<in> set (errors (validateEmployee newDate now d))
            \<longleftrightarrow> t < 946684800000) \<and>
         (''Hire date cannot be in the future'' \<in> set (errors (validateInstructor newDate now d))
            \<longleftrightarrow> of_int now < t) \<and>
         (''Hire date seems too old (before 2000)'' \<in> set (errors (validateInstructor newDate now d))
            \<longleftrightarrow> t < 946684800000)"
proof -
  from assms have after: "hiredAfter newDate now d \<longleftrightarrow> of_int now < t"
    by (simp add: hiredAfter_def)
  from assms have before: "hiredBeforeFloor newDate d \<longleftrightarrow> t < 946684800000"
    by (simp add: hiredBeforeFloor_def)
  show ?thesis
    unfolding validateEmployee_errors validateInstructor_errors reported_set
    by (simp add: employeeRules_def instructorRules_def after before)
qed

theorem hireDate_rules_witness:
  "field (officer ''1999-12-31'') ''hireDate'' = Some ''1999-12-31'' \<and>
   isoDate ''1999-12-31'' = Finite 946598400000 \<and>
   ''Hire date seems too old (before 2000)''
      \<in> set (errors (validateEmployee isoDate 1700000000000 (officer ''1999-12-31''))) \<and>
   ''Hire date cannot be in the future''
      \<notin> set (errors (validateInstructor isoDate 1700000000000 (officer ''1999-12-31'')))"
proof -
  have present: "field (officer ''1999-12-31'') ''hireDate'' = Some ''1999-12-31''"
    and filled: "''1999-12-31'' \<noteq> []"
    by (simp_all add: officer_def field_def)
  have hired: "isoDate ''1999-12-31'' = Finite 946598400000"
    and floor: "isoDate ''2000-01-01'' = Finite 946684800000"
    by code_simp+
  from hireDate_rules [OF present filled hired floor, where now = 1700000000000] present hired
  show ?thesis by simp
qed




section \<open>Saving from the add modal\<close>

lemma submitRecord_created:
  assumes "currentRecord s = None"
  shows "snd (submitRecord failure body (WriteResponse True) r s) =
           [Fetch (PostReq body), FormReset, Fetch (listRequest s)]"
    and "\<not> formModalActive (fst (submitRecord failure body (WriteResponse True) r s))"
    and "currentRecord (fst (submitRecord failure body (WriteResponse True) r s)) = None"
  using assms
  by (simp_all add: submitRecord_def closeModal_def split_beta loadData_effects loadData_frame)

lemma listRequest_not_lookup [simp]: "ByCodeReq x \<noteq> listRequest s"
  by (simp add: listRequest_def)

lemma submitRecord_first:
  "\<exists>rest. snd (submitRecord failure body w r s) =
     Fetch (case currentRecord s of
              Some rec \<Rightarrow> PutReq (map_of rec ''id'') (withId (map_of rec ''id'') body)
            | None \<Rightarrow> PostReq body) # rest \<and>
     (\<forall>x. Fetch (ByCodeReq x) \<notin> set rest)"
  by (cases w)
     (auto simp: submitRecord_def closeModal_def split_beta loadData_effects Let_def
        split: option.splits)

lemma openAddModal_state:
  "currentRecord (fst (openAddModal s0)) = None"
  "formModalActive (fst (openAddModal s0))"
  by (simp_all add: openAddModal_def)

lemma join_holds: "e \<in> set es \<Longrightarrow> \<exists>pre post. join es = pre @ e @ post"
proof (induction es rule: join.induct)
  case 1
  then show ?case by simp
next
  case (2 x)
  then have "join [x] = [] @ e @ []" by simp
  then show ?case by blast
next
  case (3 x y ys)
  show ?case
  proof (cases "e = x")
    case True
    then have "join (x # y # ys) = [] @ e @ (CHR 0x0A # join (y # ys))" by simp
    then show ?thesis by blast
  next
    case False
    with "3.prems" have "e \<in> set (y # ys)" by simp
    with "3.IH" obtain pre post where "join (y # ys) = pre @ e @ post" by blast
    then have "join (x # y # ys) = (x @ CHR 0x0A # pre) @ e @ post" by simp
    then show ?thesis by blast
  qed
qed

lemma alert_lists:
  assumes "e \<in> set es"
  shows "\<exists>pre post. ''Validation errors:'' @ CHR 0x0A # join es = pre @ e @ post"
proof -
  from join_holds [OF assms] obtain pre post where "join es = pre @ e @ post" by blast
  then have "''Validation errors:'' @ CHR 0x0A # join es =
      (''Validation errors:'' @ CHR 0x0A # pre) @ e @ post"
    by simp
  then show ?thesis by blast
qed

text \<open>
  C6. Saving from the add modal, for each of the four record kinds. When validation fails,
  the save has exactly one effect, an alert whose text is the heading followed by the
  errors joined by line breaks, so that every error of the validation stands in it; no
  request is sent and the view is left as it was, its modal open. When validation
  succeeds and the create request succeeds, the requests are exactly one \<^verbatim>\<open>POST\<close> and
  then exactly one reload of the current query (for a course, after the lookup of its
  code found nothing), the form is reset in between, the modal is closed and no record is
  selected.
\<close>

theorem save_from_add_modal:
  assumes "s = fst (openAddModal s0)" and "data = fromEntries entries"
  shows "formModalActive s \<and> currentRecord s = None \<and>
    (\<not> isValid (validateStudent data) \<longrightarrow>
       Student_saveRecord entries w r s =
         (s, [Alert (''Validation errors:'' @ CHR 0x0A # join (errors (validateStudent data)))]) \<and>
       (\<forall>e\<in>set (errors (validateStudent data)). \<exists>pre post.
          snd (Student_saveRecord entries w r s) = [Alert (pre @ e @ post)])) \<and>
    (isValid (validateStudent data) \<and> w = WriteResponse True \<longrightarrow>
       (\<exists>body. snd (Student_saveRecord entries w r s) =
                 [Fetch (PostReq body), FormReset, Fetch (listRequest s)]) \<and>
       \<not> formModalActive (fst (Student_saveRecord entries w r s)) \<and>
       currentRecord (fst (Student_saveRecord entries w r s)) = None) \<and>
    (\<not> isValid (validateCourse data) \<longrightarrow>
       Course_saveRecord entries l w r s =
         (s, [Alert (''Validation errors:'' @ CHR 0x0A # join (errors (validateCourse data)))]) \<and>
       (\<forall>e\<in>set (errors (validateCourse data)). \<exists>pre post.
          snd (Course_saveRecord entries l w r s) = [Alert (pre @ e @ post)])) \<and>
    (isValid (validateCourse data) \<and> getCourseByCode l = None \<and> w = WriteResponse True \<longrightarrow>
       (\<exists>code body. snd (Course_saveRecord entries l w r s) =
                 [Fetch (ByCodeReq code), Fetch (PostReq body), FormReset,
                  Fetch (listRequest s)]) \<and>
       \<not> formModalActive (fst (Course_saveRecord entries l w r s)) \<and>
       currentRecord (fst (Course_saveRecord entries l w r s)) = None) \<and>
    (\<not> isValid (validateEmployee newDate now data) \<longrightarrow>
       Employee_saveRecord newDate now entries w r s =
         (s, [Alert (''Validation errors:'' @ CHR 0x0A # join (errors (validateEmployee newDate now data)))]) \<and>
       (\<forall>e\<in>set (errors (validateEmployee newDate now data)). \<exists>pre post.
          snd (Employee_saveRecord newDate now entries w r s) = [Alert (pre @ e @ post)])) \<and>
    (isValid (validateEmployee newDate now data) \<and> w = WriteResponse True \<longrightarrow>
       (\<exists>body. snd (Employee_saveRecord newDate now entries w r s) =
                 [Fetch (PostReq body), FormReset, Fetch (listRequest s)]) \<and>
       \<not> formModalActive (fst (Employee_saveRecord newDate now entries w r s)) \<and>
       currentRecord (fst (Employee_saveRecord newDate now entries w r s)) = None) \<and>
    (\<not> isValid (validateInstructor newDate now data) \<longrightarrow>
       Instructor_saveRecord newDate now entries w r s =
         (s, [Alert (''Validation errors:'' @ CHR 0x0A # join (errors (validateInstructor newDate now data)))]) \<and>
       (\<forall>e\<in>set (errors (validateInstructor newDate now data)). \<exists>pre post.
          snd (Instructor_saveRecord newDate now entries w r s) = [Alert (pre @ e @ post)])) \<and>
    (isValid (validateInstructor newDate now data) \<and> w = WriteResponse True \<longrightarrow>
       (\<exists>body. snd (Instructor_saveRecord newDate now entries w r s) =
                 [Fetch (PostReq body), FormReset, Fetch (listRequest s)]) \<and>
       \<not> formModalActive (fst (Instructor_saveRecord newDate now entries w r s)) \<and>
       currentRecord (fst (Instructor_saveRecord newDate now entries w r s)) = None)"
proof -
  from assms(1) have add: "currentRecord s = None" and opened: "formModalActive s"
    by (simp_all add: openAddModal_state)
  note created = submitRecord_created [OF add]
  have student_invalid: "(\<not> isValid (validateStudent data) \<longrightarrow>
       Student_saveRecord entries w r s =
         (s, [Alert (''Validation errors:'' @ CHR 0x0A # join (errors (validateStudent data)))]) \<and>
       (\<forall>e\<in>set (errors (validateStudent data)). \<exists>pre post.
          snd (Student_saveRecord entries w r s) = [Alert (pre @ e @ post)]))"
  proof (intro impI conjI ballI)
    assume invalid: "\<not> isValid (validateStudent data)"
    then show shown: "Student_saveRecord entries w r s =
         (s, [Alert (''Validation errors:'' @ CHR 0x0A # join (errors (validateStudent data)))])"
      by (simp add: Student_saveRecord_def validationAlert_def Let_def assms(2))
    fix e assume "e \<in> set (errors (validateStudent data))"
    from alert_lists [OF this] shown
    show "\<exists>pre post. snd (Student_saveRecord entries w r s) = [Alert (pre @ e @ post)]"
      by auto
  qed
  have student_valid: "(isValid (validateStudent data) \<and> w = WriteResponse True \<longrightarrow>
       (\<exists>body. snd (Student_saveRecord entries w r s) =
                 [Fetch (PostReq body), FormReset, Fetch (listRequest s)]) \<and>
       \<not> formModalActive (fst (Student_saveRecord entries w r s)) \<and>
       currentRecord (fst (Student_saveRecord entries w r s)) = None)"
    using created by (simp add: Student_saveRecord_def Let_def assms(2))
  have course_invalid: "(\<not> isValid (validateCourse data) \<longrightarrow>
       Course_saveRecord entries l w r s =
         (s, [Alert (''Validation errors:'' @ CHR 0x0A # join (errors (validateCourse data)))]) \<and>
       (\<forall>e\<in>set (errors (validateCourse data)). \<exists>pre post.
          snd (Course_saveRecord entries l w r s) = [Alert (pre @ e @ post)]))"
  proof (intro impI conjI ballI)
    assume invalid: "\<not> isValid (validateCourse data)"
    then show shown: "Course_saveRecord entries l w r s =
         (s, [Alert (''Validation errors:'' @ CHR 0x0A # join (errors (validateCourse data)))])"
      by (simp add: Course_saveRecord_def validationAlert_def Let_def assms(2))
    fix e assume "e \<in> set (errors (validateCourse data))"
    from alert_lists [OF this] shown
    show "\<exists>pre post. snd (Course_saveRecord entries l w r s) = [Alert (pre @ e @ post)]"
      by auto
  qed
  have course_valid: "(isValid (validateCourse data) \<and> getCourseByCode l = None \<and> w = WriteResponse True \<longrightarrow>
       (\<exists>code body. snd (Course_saveRecord entries l w r s) =
                 [Fetch (ByCodeReq code), Fetch (PostReq body), FormReset,
                  Fetch (listRequest s)]) \<and>
       \<not> formModalActive (fst (Course_saveRecord entries l w r s)) \<and>
       currentRecord (fst (Course_saveRecord entries l w r s)) = None)"
  proof (intro impI, elim conjE)
    assume valid: "isValid (validateCourse data)" and free: "getCourseByCode l = None"
      and ok: "w = WriteResponse True"
    from valid have "\<not> malformed codeRegex toUpperCase ''code'' data"
      by (simp add: validate_isValid validateCourse_errors courseRules_def reported_Cons
            split: if_splits)
    then obtain c where "field data ''code'' = Some c"
      by (auto simp: malformed_def split: option.splits)
    with valid free ok add created show "(\<exists>code body. snd (Course_saveRecord entries l w r s) =
                 [Fetch (ByCodeReq code), Fetch (PostReq body), FormReset,
                  Fetch (listRequest s)]) \<and>
       \<not> formModalActive (fst (Course_saveRecord entries l w r s)) \<and>
       currentRecord (fst (Course_saveRecord entries l w r s)) = None"
      by (simp add: Course_saveRecord_def Let_def assms(2) split_beta)
  qed
  have employee_invalid: "(\<not> isValid (validateEmployee newDate now data) \<longrightarrow>
       Employee_saveRecord newDate now entries w r s =
         (s, [Alert (''Validation errors:'' @ CHR 0x0A # join (errors (validateEmployee newDate now data)))]) \<and>
       (\<forall>e\<in>set (errors (validateEmployee newDate now data)). \<exists>pre post.
          snd (Employee_saveRecord newDate now entries w r s) = [Alert (pre @ e @ post)]))"
  proof (intro impI conjI ballI)
    assume invalid: "\<not> isValid (validateEmployee newDate now data)"
    then show shown: "Employee_saveRecord newDate now entries w r s =
         (s, [Alert (''Validation errors:'' @ CHR 0x0A # join (errors (validateEmployee newDate now data)))])"
      by (simp add: Employee_saveRecord_def validationAlert_def Let_def assms(2))
    fix e assume "e \<in> set (errors (validateEmployee newDate now data))"
    from alert_lists [OF this] shown
    show "\<exists>pre post. snd (Employee_saveRecord newDate now entries w r s) = [Alert (pre @ e @ post)]"
      by auto
  qed
  have employee_valid: "(isValid (validateEmployee newDate now data) \<and> w = WriteResponse True \<longrightarrow>
       (\<exists>body. snd (Employee_saveRecord newDate now entries w r s) =
                 [Fetch (PostReq body), FormReset, Fetch (listRequest s)]) \<and>
       \<not> formModalActive (fst (Employee_saveRecord newDate now entries w r s)) \<and>
       currentRecord (fst (Employee_saveRecord newDate now entries w r s)) = None)"
    using created by (simp add: Employee_saveRecord_def Let_def assms(2))
  have instructor_invalid: "(\<not> isValid (validateInstructor newDate now data) \<longrightarrow>
       Instructor_saveRecord newDate now entries w r s =
         (s, [Alert (''Validation errors:'' @ CHR 0x0A # join (errors (validateInstructor newDate now data)))]) \<and>
       (\<forall>e\<in>set (errors (validateInstructor newDate now data)). \<exists>pre post.
          snd (Instructor_saveRecord newDate now entries w r s) = [Alert (pre @ e @ post)]))"
  proof (intro impI conjI ballI)
    assume invalid: "\<not> isValid (validateInstructor newDate now data)"
    then show shown: "Instructor_saveRecord newDate now entries w r s =
         (s, [Alert (''Validation errors:'' @ CHR 0x0A # join (errors (validateInstructor newDate now data)))])"
      by (simp add: Instructor_saveRecord_def validationAlert_def Let_def assms(2))
    fix e assume "e \<in> set (errors (validateInstructor newDate now data))"
    from alert_lists [OF this] shown
    show "\<exists>pre post. snd (Instructor_saveRecord newDate now entries w r s) = [Alert (pre @ e @ post)]"
      by auto
  qed
  have instructor_valid: "(isValid (validateInstructor newDate now data) \<and> w = WriteResponse True \<longrightarrow>
       (\<exists>body. snd (Instructor_saveRecord newDate now entries w r s) =
                 [Fetch (PostReq body), FormReset, Fetch (listRequest s)]) \<and>
       \<not> formModalActive (fst (Instructor_saveRecord newDate now entries w r s)) \<and>
       currentRecord (fst (Instructor_saveRecord newDate now entries w r s)) = None)"
    using created by (simp add: Instructor_saveRecord_def Let_def assms(2))
  show ?thesis
    by (intro conjI)
       (rule add opened student_invalid student_valid course_invalid course_valid
          employee_invalid employee_valid instructor_invalid instructor_valid)+
qed

theorem save_from_add_modal_witness:
  "formModalActive (fst (openAddModal initialTable)) \<and>
   Student_saveRecord twoFaults (WriteResponse True) threePages (fst (openAddModal initialTable)) =
     (fst (openAddModal initialTable),
      [Alert (''Validation errors:'' @ CHR 0x0A #
              ''Name must be at least 3 characters long'' @ CHR 0x0A #
              ''GPA must be between 0.0 and 4.0'')]) \<and>
   \<not> formModalActive (fst (Student_saveRecord annLee (WriteResponse True) threePages
                             (fst (openAddModal initialTable)))) \<and>
   (\<exists>body. snd (Student_saveRecord annLee (WriteResponse True) threePages
                  (fst (openAddModal initialTable))) =
     [Fetch (PostReq body), FormReset, Fetch (listRequest (fst (openAddModal initialTable)))])"
proof -
  have invalid: "\<not> isValid (validateStudent (fromEntries twoFaults))"
    and valid: "isValid (validateStudent (fromEntries annLee))"
    and listed: "join (errors (validateStudent (fromEntries twoFaults))) =
      ''Name must be at least 3 characters long'' @ CHR 0x0A #
      ''GPA must be between 0.0 and 4.0''"
    by code_simp+
  from save_from_add_modal [OF refl refl, of initialTable twoFaults "WriteResponse True" threePages]
       save_from_add_modal [OF refl refl, of initialTable annLee "WriteResponse True" threePages]
       invalid valid listed
  show ?thesis by simp
qed

text \<open>
  C10. A grade point average that is not a numeral passes: for the student Ann Lee with
  \<open>gpa = "3.5abc"\<close> the validator reports nothing, and saving from the add modal posts a
  record whose \<open>gpa\<close> is the number 3.5, the value of the numeric prefix.
\<close>

theorem gpa_prefix_accepted:
  "field gradeWithSuffix ''gpa'' = Some ''3.5abc'' \<and>
   validateStudent gradeWithSuffix = \<lparr>isValid = True, errors = []\<rparr> \<and>
   snd (Student_saveRecord gradeWithSuffix (WriteResponse True) threePages
          (fst (openAddModal initialTable))) =
     [Fetch (PostReq
        [(''name'', JString ''Ann Lee''), (''email'', JString ''a@b.edu''),
         (''phone'', JString ''1234567890''), (''department'', JString ''Science''),
         (''gpa'', JNumber (Finite (7 / 2))), (''enrollmentDate'', JString ''2023-01-01'')]),
      FormReset, Fetch (ListReq 1 (Finite 10) None None)]"
  by code_simp

section \<open>Course codes\<close>

lemma codeRegex_shape:
  "regex_test codeRegex u \<longleftrightarrow>
     (\<exists>letters digits. u = letters @ digits \<and> 2 \<le> length letters \<and> length letters \<le> 4 \<and>
        list_all isUpper letters \<and> length digits = 3 \<and> list_all isDigit digits)"
proof
  assume "regex_test codeRegex u"
  then have "\<exists>n. 2 \<le> n \<and> n \<le> length u \<and> n \<le> 4 \<and> list_all isUpper (take n u) \<and>
      (\<exists>m. 3 \<le> m \<and> m \<le> length (drop n u) \<and> m \<le> 3 \<and>
         list_all isDigit (take m (drop n u)) \<and> drop m (drop n u) = [])"
    by (simp only: codeRegex_def regex_test_item regex_test.simps(1) option.case)
  then obtain n m where n: "2 \<le> n" "n \<le> length u" "n \<le> 4" "list_all isUpper (take n u)"
    and m: "3 \<le> m" "m \<le> length (drop n u)" "m \<le> 3" "list_all isDigit (take m (drop n u))"
      "drop m (drop n u) = []"
    by blast
  from m have three: "length (drop n u) = 3" and "take m (drop n u) = drop n u"
    by simp_all
  with m have digits: "list_all isDigit (drop n u)" by simp
  have "u = take n u @ drop n u" by simp
  moreover from n have "2 \<le> length (take n u)" "length (take n u) \<le> 4" by simp_all
  ultimately show "\<exists>letters digits. u = letters @ digits \<and> 2 \<le> length letters \<and>
        length letters \<le> 4 \<and> list_all isUpper letters \<and> length digits = 3 \<and>
        list_all isDigit digits"
    using n(4) three digits by blast
next
  assume "\<exists>letters digits. u = letters @ digits \<and> 2 \<le> length letters \<and>
        length letters \<le> 4 \<and> list_all isUpper letters \<and> length digits = 3 \<and>
        list_all isDigit digits"
  then obtain letters digits where u: "u = letters @ digits"
    and l: "2 \<le> length letters" "length letters \<le> 4" "list_all isUpper letters"
    and d: "length digits = 3" "list_all isDigit digits"
    by blast
  have "regex_test [Quantified isDigit 3 (Some 3)] digits"
    unfolding regex_test_item using d by (intro exI [of _ 3]) simp
  then show "regex_test codeRegex u"
    unfolding codeRegex_def regex_test_item [of isUpper] using u l
    by (intro exI [of _ "length letters"]) simp
qed

lemma map_of_obj_set: "map_of (obj_set k v obj) k' = (if k' = k then Some v else map_of obj k')"
  by (induction obj) auto

lemma map_of_withId: "k \<noteq> ''id'' \<Longrightarrow> map_of (withId ident body) k = map_of body k"
proof (cases ident)
  case None
  assume "k \<noteq> ''id''"
  then have "map_of (filter (\<lambda>(k, v). k \<noteq> ''id'') body) k = map_of body k"
    by (induction body) auto
  with None show ?thesis by (simp add: withId_def)
next
  case (Some v)
  assume "k \<noteq> ''id''"
  with Some show ?thesis by (simp add: withId_def map_of_obj_set)
qed

text \<open>
  C8. The code of a course passes validation exactly when it is present and, upper-cased,
  consists of two to four capital letters followed by three digits. Saving a valid course
  writes the upper-cased code. On the create path the save first looks the upper-cased
  code up and, when the lookup returns a course, alerts and stops with no write; when it
  returns none, the \<^verbatim>\<open>POST\<close> follows. On the edit path there is no lookup: the first
  request is the \<^verbatim>\<open>PUT\<close>.
\<close>

theorem course_code_rule:
  "(courseCodeMessage \<notin> set (errors (validateCourse d)) \<longleftrightarrow>
      (\<exists>c letters digits. field d ''code'' = Some c \<and> toUpperCase c = letters @ digits \<and>
         2 \<le> length letters \<and> length letters \<le> 4 \<and> list_all isUpper letters \<and>
         length digits = 3 \<and> list_all isDigit digits)) \<and>
   (isValid (validateCourse (fromEntries entries)) \<longrightarrow>
      (\<exists>c. field (fromEntries entries) ''code'' = Some c \<and>
         (currentRecord s = None \<and> getCourseByCode l \<noteq> None \<longrightarrow>
            Course_saveRecord entries l w r s =
              (s, [Fetch (ByCodeReq (toUpperCase c)),
                   Alert (''Course code '' @ toUpperCase c @ '' already exists!'')])) \<and>
         (currentRecord s = None \<and> getCourseByCode l = None \<longrightarrow>
            (\<exists>body rest. snd (Course_saveRecord entries l w r s) =
                Fetch (ByCodeReq (toUpperCase c)) # Fetch (PostReq body) # rest \<and>
                map_of body ''code'' = Some (JString (toUpperCase c)))) \<and>
         (currentRecord s \<noteq> None \<longrightarrow>
            (\<exists>ident body rest. snd (Course_saveRecord entries l w r s) =
                Fetch (PutReq ident body) # rest \<and>
                map_of body ''code'' = Some (JString (toUpperCase c)) \<and>
                (\<forall>x. Fetch (ByCodeReq x) \<notin> set rest)))))"
proof (intro conjI impI)
  have "courseCodeMessage \<notin> set (errors (validateCourse d)) \<longleftrightarrow>
          \<not> malformed codeRegex toUpperCase ''code'' d"
    unfolding validateCourse_errors reported_set
    by (simp add: courseRules_def courseCodeMessage_def)
  also have "\<dots> \<longleftrightarrow> (\<exists>c. field d ''code'' = Some c \<and> regex_test codeRegex (toUpperCase c))"
    by (simp add: malformed_def split: option.splits)
  finally show "courseCodeMessage \<notin> set (errors (validateCourse d)) \<longleftrightarrow>
      (\<exists>c letters digits. field d ''code'' = Some c \<and> toUpperCase c = letters @ digits \<and>
         2 \<le> length letters \<and> length letters \<le> 4 \<and> list_all isUpper letters \<and>
         length digits = 3 \<and> list_all isDigit digits)"
    by (simp add: codeRegex_shape)
next
  let ?data = "fromEntries entries"
  assume valid: "isValid (validateCourse ?data)"
  then have "\<not> malformed codeRegex toUpperCase ''code'' ?data"
    by (simp add: validate_isValid validateCourse_errors courseRules_def reported_Cons
          split: if_splits)
  then obtain c where c: "field ?data ''code'' = Some c"
    by (auto simp: malformed_def split: option.splits)
  let ?body = "obj_set ''credits'' (JNumber (parseInt (toString (field ?data ''credits''))))
                 (obj_set ''code'' (JString (toUpperCase c)) (strings ?data))"
  have code: "map_of ?body ''code'' = Some (JString (toUpperCase c))"
    by (simp add: map_of_obj_set)
  have found: "currentRecord s = None \<and> getCourseByCode l \<noteq> None \<longrightarrow>
            Course_saveRecord entries l w r s =
              (s, [Fetch (ByCodeReq (toUpperCase c)),
                   Alert (''Course code '' @ toUpperCase c @ '' already exists!'')])"
    using valid c by (auto simp: Course_saveRecord_def Let_def)
  have free: "currentRecord s = None \<and> getCourseByCode l = None \<longrightarrow>
            (\<exists>body rest. snd (Course_saveRecord entries l w r s) =
                Fetch (ByCodeReq (toUpperCase c)) # Fetch (PostReq body) # rest \<and>
                map_of body ''code'' = Some (JString (toUpperCase c)))"
  proof (intro impI, elim conjE)
    assume add: "currentRecord s = None" and none: "getCourseByCode l = None"
    from submitRecord_first [of "''Failed to save course. Please try again.''" ?body w r s] add
    obtain rest where "snd (submitRecord ''Failed to save course. Please try again.'' ?body w r s)
        = Fetch (PostReq ?body) # rest"
      by auto
    with valid c add none have "snd (Course_saveRecord entries l w r s) =
        Fetch (ByCodeReq (toUpperCase c)) # Fetch (PostReq ?body) # rest"
      by (simp add: Course_saveRecord_def Let_def split_beta)
    with code show "\<exists>body rest. snd (Course_saveRecord entries l w r s) =
                Fetch (ByCodeReq (toUpperCase c)) # Fetch (PostReq body) # rest \<and>
                map_of body ''code'' = Some (JString (toUpperCase c))"
      by blast
  qed
  have edit: "currentRecord s \<noteq> None \<longrightarrow>
            (\<exists>ident body rest. snd (Course_saveRecord entries l w r s) =
                Fetch (PutReq ident body) # rest \<and>
                map_of body ''code'' = Some (JString (toUpperCase c)) \<and>
                (\<forall>x. Fetch (ByCodeReq x) \<notin> set rest))"
  proof
    assume "currentRecord s \<noteq> None"
    then obtain rec where rec: "currentRecord s = Some rec" by auto
    from submitRecord_first [of "''Failed to save course. Please try again.''" ?body w r s] rec
    obtain rest where rest:
      "snd (submitRecord ''Failed to save course. Please try again.'' ?body w r s)
        = Fetch (PutReq (map_of rec ''id'') (withId (map_of rec ''id'') ?body)) # rest"
      "\<forall>x. Fetch (ByCodeReq x) \<notin> set rest"
      by auto
    with valid c rec have "snd (Course_saveRecord entries l w r s) =
        Fetch (PutReq (map_of rec ''id'') (withId (map_of rec ''id'') ?body)) # rest"
      by (simp add: Course_saveRecord_def Let_def)
    moreover have "map_of (withId (map_of rec ''id'') ?body) ''code'' =
        Some (JString (toUpperCase c))"
      using code by (simp add: map_of_withId)
    ultimately show "\<exists>ident body rest. snd (Course_saveRecord entries l w r s) =
                Fetch (PutReq ident body) # rest \<and>
                map_of body ''code'' = Some (JString (toUpperCase c)) \<and>
                (\<forall>x. Fetch (ByCodeReq x) \<notin> set rest)"
      using rest(2) by blast
  qed
  from c found free edit
  show "\<exists>c. field (fromEntries entries) ''code'' = Some c \<and>
         (currentRecord s = None \<and> getCourseByCode l \<noteq> None \<longrightarrow>
            Course_saveRecord entries l w r s =
              (s, [Fetch (ByCodeReq (toUpperCase c)),
                   Alert (''Course code '' @ toUpperCase c @ '' already exists!'')])) \<and>
         (currentRecord s = None \<and> getCourseByCode l = None \<longrightarrow>
            (\<exists>body rest. snd (Course_saveRecord entries l w r s) =
                Fetch (ByCodeReq (toUpperCase c)) # Fetch (PostReq body) # rest \<and>
                map_of body ''code'' = Some (JString (toUpperCase c)))) \<and>
         (currentRecord s \<noteq> None \<longrightarrow>
            (\<exists>ident body rest. snd (Course_saveRecord entries l w r s) =
                Fetch (PutReq ident body) # rest \<and>
                map_of body ''code'' = Some (JString (toUpperCase c)) \<and>
                (\<forall>x. Fetch (ByCodeReq x) \<notin> set rest)))"
    by blast
qed

theorem course_code_rule_witness:
  "field introToSystems ''code'' = Some ''cs101'' \<and>
   courseCodeMessage \<notin> set (errors (validateCourse introToSystems)) \<and>
   Course_saveRecord introToSystems taken (WriteResponse True) threePages
       (fst (openAddModal initialTable)) =
     (fst (openAddModal initialTable),
      [Fetch (ByCodeReq ''CS101''), Alert ''Course code CS101 already exists!''])"
proof -
  let ?s = "fst (openAddModal initialTable)"
  have code: "field introToSystems ''code'' = Some ''cs101''"
    and entered: "field (fromEntries introToSystems) ''code'' = Some ''cs101''"
    and upper: "toUpperCase ''cs101'' = ''CS'' @ ''101''"
    and shape: "2 \<le> length ''CS''" "length ''CS'' \<le> 4" "list_all isUpper ''CS''"
      "length ''101'' = 3" "list_all isDigit ''101''"
    and valid: "isValid (validateCourse (fromEntries introToSystems))"
    and add: "currentRecord ?s = None"
    and found: "getCourseByCode taken \<noteq> None"
    by code_simp+
  note rule = course_code_rule [of introToSystems introToSystems ?s taken "WriteResponse True"
      threePages]
  from rule code upper shape have passes:
    "courseCodeMessage \<notin> set (errors (validateCourse introToSystems))"
    by blast
  from rule valid entered add found upper have
    "Course_saveRecord introToSystems taken (WriteResponse True) threePages ?s =
       (?s, [Fetch (ByCodeReq ''CS101''), Alert ''Course code CS101 already exists!''])"
    by auto
  with code passes show ?thesis by simp
qed

end
